theory Spec2Isabelle
  imports Main "HOL-Library.AList"
begin

section \<open>Bytes, errors and the Go library functions the client calls\<close>

text \<open>
  A Go byte slice and a Go string are both sequences of bytes: they are modelled as
  \<^typ>\<open>string\<close>, a list of 8-bit characters. A rune (\<open>int32\<close>) is an integer.
  An \<open>error\<close> value carries the text of its \<open>Error()\<close> method; a run-time panic
  (an index out of range) is an outcome of its own.
\<close>

datatype error = Error string | Panic string

definition dq :: char where "dq = CHR 0x22"  \<comment> \<open>the double quote\<close>
definition bsl :: char where "bsl = CHR 0x5C"  \<comment> \<open>the backslash\<close>
definition NUL :: char where "NUL = CHR 0x00"

definition RuneError :: int where "RuneError = 0xFFFD"

text \<open>
  \<open>utf8.DecodeRune\<close> of the Go library: the first rune of \<open>p\<close> and its width in bytes;
  an invalid encoding is \<open>(RuneError, 1)\<close>, an empty input \<open>(RuneError, 0)\<close>. The
  library's masks and shifts (\<open>p0&mask2<<6 | b1&maskx\<close>) are written with
  \<open>mod\<close>, \<open>*\<close> and \<open>+\<close>, which agree with them on disjoint bit fields.
\<close>

definition utf8_DecodeRune :: "string \<Rightarrow> int \<times> nat" where
  "utf8_DecodeRune p =
     (case p of [] \<Rightarrow> (RuneError, 0)
      | c0 # q \<Rightarrow>
         (let p0 = (of_char c0 :: int) in
          if p0 < 0x80 then (p0, 1)
          else if p0 < 0xC2 \<or> 0xF4 < p0 then (RuneError, 1)
          else
            (let sz = (if p0 < 0xE0 then 2 else if p0 < 0xF0 then 3 else (4::nat));
                 lo = (if p0 = 0xE0 then 0xA0 else if p0 = 0xF0 then 0x90 else (0x80::int));
                 hi = (if p0 = 0xED then 0x9F else if p0 = 0xF4 then 0x8F else (0xBF::int))
             in if length p < sz then (RuneError, 1)
                else
                  (let b1 = (of_char (p ! 1) :: int) in
                   if b1 < lo \<or> hi < b1 then (RuneError, 1)
                   else if sz \<le> 2 then ((p0 mod 32) * 64 + b1 mod 64, 2)
                   else
                     (let b2 = (of_char (p ! 2) :: int) in
                      if b2 < 0x80 \<or> 0xBF < b2 then (RuneError, 1)
                      else if sz \<le> 3
                        then ((p0 mod 16) * 4096 + (b1 mod 64) * 64 + b2 mod 64, 3)
                      else
                        (let b3 = (of_char (p ! 3) :: int) in
                         if b3 < 0x80 \<or> 0xBF < b3 then (RuneError, 1)
                         else ((p0 mod 8) * 262144 + (b1 mod 64) * 4096
                                 + (b2 mod 64) * 64 + b3 mod 64, 4)))))))"

text \<open>
  \<open>utf8.AppendRune\<close>, which \<open>strings.Builder.WriteRune\<close> and \<open>utf8.EncodeRune\<close>
  use, and which the conversion \<open>string(b)\<close> of a byte applies to the rune \<open>b\<close>:
  a surrogate or a value above U+10FFFF is written as U+FFFD.
\<close>

definition utf8_AppendRune :: "int \<Rightarrow> string" where
  "utf8_AppendRune r =
     (if r < 0 then [CHR 0xEF, CHR 0xBF, CHR 0xBD]
      else if r \<le> 0x7F then [char_of r]
      else if r \<le> 0x7FF then [char_of (0xC0 + r div 64), char_of (0x80 + r mod 64)]
      else if 0x10FFFF < r \<or> (0xD800 \<le> r \<and> r \<le> 0xDFFF)
        then [CHR 0xEF, CHR 0xBF, CHR 0xBD]
      else if r \<le> 0xFFFF
        then [char_of (0xE0 + r div 4096), char_of (0x80 + (r div 64) mod 64),
              char_of (0x80 + r mod 64)]
      else [char_of (0xF0 + r div 262144), char_of (0x80 + (r div 4096) mod 64),
            char_of (0x80 + (r div 64) mod 64), char_of (0x80 + r mod 64)])"

text \<open>\<open>utf16.IsSurrogate\<close> and \<open>utf16.DecodeRune\<close>.\<close>

definition utf16_IsSurrogate :: "int \<Rightarrow> bool" where
  "utf16_IsSurrogate r = (0xD800 \<le> r \<and> r < 0xE000)"

definition utf16_DecodeRune :: "int \<Rightarrow> int \<Rightarrow> int" where
  "utf16_DecodeRune r1 r2 =
     (if 0xD800 \<le> r1 \<and> r1 < 0xDC00 \<and> 0xDC00 \<le> r2 \<and> r2 < 0xE000
      then (r1 - 0xD800) * 1024 + (r2 - 0xDC00) + 0x10000
      else RuneError)"

text \<open>
  \<open>strconv.ParseUint(s, 16, 32)\<close>: every byte must be a hexadecimal digit (no sign, no
  prefix and no underscore for an explicit base), the string must not be empty and the
  value must fit 32 bits. \<open>None\<close> is the error return; its text is never read.
\<close>

definition hexDigit :: "char \<Rightarrow> int option" where
  "hexDigit c =
     (let n = (of_char c :: int) in
      if 0x30 \<le> n \<and> n \<le> 0x39 then Some (n - 0x30)
      else if 0x61 \<le> n \<and> n \<le> 0x66 then Some (n - 0x61 + 10)
      else if 0x41 \<le> n \<and> n \<le> 0x46 then Some (n - 0x41 + 10)
      else None)"

fun hexValue :: "int \<Rightarrow> string \<Rightarrow> int option" where
  "hexValue acc [] = Some acc"
| "hexValue acc (c # cs) =
     (case hexDigit c of None \<Rightarrow> None | Some d \<Rightarrow> hexValue (16 * acc + d) cs)"

definition strconv_ParseUint16 :: "string \<Rightarrow> int option" where
  "strconv_ParseUint16 s =
     (if s = [] then None
      else case hexValue 0 s of None \<Rightarrow> None
           | Some v \<Rightarrow> if v < 2 ^ 32 then Some v else None)"

text \<open>
  \<open>strconv.ParseInt(s, 10, 64)\<close>: an optional sign, then one or more decimal digits;
  the value must lie in the range of \<open>int64\<close>. The error text is that of
  \<open>strconv.NumError\<close> for strings that \<open>strconv.Quote\<close> leaves as they are.
\<close>

definition isDigit :: "char \<Rightarrow> bool" where
  "isDigit c = (0x30 \<le> (of_char c :: nat) \<and> (of_char c :: nat) \<le> 0x39)"

fun decValue :: "int \<Rightarrow> string \<Rightarrow> int" where
  "decValue acc [] = acc"
| "decValue acc (c # cs) = decValue (10 * acc + (int (of_char c) - 0x30)) cs"

definition numError :: "string \<Rightarrow> string \<Rightarrow> error" where
  "numError s why = Error (''strconv.ParseInt: parsing '' @ [dq] @ s @ [dq] @ '': '' @ why)"

definition strconv_ParseInt :: "string \<Rightarrow> error + int" where
  "strconv_ParseInt s =
     (let neg = (s \<noteq> [] \<and> hd s = CHR ''-'');
          ds = (if s \<noteq> [] \<and> (hd s = CHR ''+'' \<or> hd s = CHR ''-'') then tl s else s)
      in if ds = [] \<or> \<not> list_all isDigit ds then Inl (numError s ''invalid syntax'')
         else
           (let v = decValue 0 ds in
            if \<not> neg \<and> 2 ^ 63 \<le> v then Inl (numError s ''value out of range'')
            else if neg \<and> 2 ^ 63 < v then Inl (numError s ''value out of range'')
            else Inr (if neg then - v else v)))"

text \<open>\<open>strconv.FormatInt(n, 10)\<close>.\<close>

fun natDigits :: "nat \<Rightarrow> string" where
  "natDigits n = (if n < 10 then [char_of (0x30 + n)]
                  else natDigits (n div 10) @ [char_of (0x30 + n mod 10)])"

declare natDigits.simps [simp del]

definition strconv_FormatInt :: "int \<Rightarrow> string" where
  "strconv_FormatInt n = (if n < 0 then CHR ''-'' # natDigits (nat (- n)) else natDigits (nat n))"

section \<open>The JSON parser (userdbclientjson\_linux.go)\<close>

definition isSpace :: "char \<Rightarrow> bool" where
  "isSpace c = (c = CHR '' '' \<or> c = CHR 0x09 \<or> c = CHR 0x0D \<or> c = CHR 0x0A)"

text \<open>The loop \<open>for len(r) > 0 && isSpace(r[0]) { r = r[1:] }\<close> that opens every parser.\<close>

fun skipSpace :: "string \<Rightarrow> string" where
  "skipSpace [] = []"
| "skipSpace (c # r) = (if isSpace c then skipSpace r else c # r)"

text \<open>
  \<open>findElementStart\<close>. The loop \<open>for idx, b = range r\<close> assigns the outer \<open>idx\<close>;
  when the range is exhausted \<open>idx\<close> is the index of the last byte, so \<open>r[idx:]\<close> is
  that last byte, not the empty slice. The function below walks the unread bytes; on the
  last byte of a buffer it ends the loop with the slice that starts at that byte.
\<close>

definition findElementStart_end :: "bool \<Rightarrow> string \<Rightarrow> error + string" where
  "findElementStart_end seenColon r =
     (if \<not> seenColon then Inl (Error ''expected colon, got end of input'') else Inr r)"

fun findElementStart_loop :: "bool \<Rightarrow> string \<Rightarrow> error + string" where
  "findElementStart_loop seenColon [] = findElementStart_end seenColon []"
| "findElementStart_loop seenColon (b # r) =
     (if isSpace b then
        (if r = [] then findElementStart_end seenColon [b]
         else findElementStart_loop seenColon r)
      else if \<not> seenColon \<and> b = CHR '':'' then
        (if r = [] then findElementStart_end True [b]
         else findElementStart_loop True r)
      else if seenColon then findElementStart_end seenColon (b # r)
      else Inl (Error (''expected colon, got invalid character: ''
                        @ utf8_AppendRune (of_char b))))"

definition findElementStart :: "string \<Rightarrow> error + string" where
  "findElementStart r = findElementStart_loop False r"

text \<open>
  \<open>parseJSONInt64\<close>. The loop returns the digits written to \<open>num\<close> and the slice
  \<open>r[count:]\<close>; the test \<open>num.Len() == 20\<close> runs at the head of an iteration, before
  the byte is looked at.
\<close>

fun parseJSONInt64_loop :: "string \<Rightarrow> string \<Rightarrow> error + (string \<times> string)" where
  "parseJSONInt64_loop num [] = Inr (num, [])"
| "parseJSONInt64_loop num (b # r) =
     (if length num = 20 then Inl (Error ''number too large'')
      else if isDigit b then parseJSONInt64_loop (num @ [b]) r
      else Inr (num, b # r))"

definition parseJSONInt64 :: "string \<Rightarrow> error + (int \<times> string)" where
  "parseJSONInt64 r0 =
     (case parseJSONInt64_loop [] (skipSpace r0) of
        Inl e \<Rightarrow> Inl e
      | Inr (num, rest) \<Rightarrow>
          (case strconv_ParseInt num of Inl e \<Rightarrow> Inl e | Inr n \<Rightarrow> Inr (n, rest)))"

definition parseJSONBoolean :: "string \<Rightarrow> error + (bool \<times> string)" where
  "parseJSONBoolean r0 =
     (let r = skipSpace r0 in
      if length r \<ge> 4 \<and> take 4 r = ''true'' then Inr (True, drop 4 r)
      else if length r \<ge> 5 \<and> take 5 r = ''false'' then Inr (False, drop 5 r)
      else Inl (Error ''unable to parse boolean value''))"

text \<open>
  \<open>parseJSONString\<close>. The \<open>bytes.Reader\<close> is modelled by its unread bytes \<open>rd\<close>:
  a read drops bytes from the front, \<open>reader.Len()\<close> is \<open>length rd\<close>, and a
  \<open>Seek\<close> back over the bytes just read leaves \<open>rd\<close> as it was before the read.
  A buffer made by \<open>make([]byte, n)\<close> holds zero bytes where a short read left it
  unwritten; the count \<open>n\<close> that \<open>Read\<close> returns is the length of what it took. \<open>parseJSONString_step\<close> is one iteration of the \<open>for\<close> loop on the
  loop state (the builder \<open>val\<close>, \<open>inEsc\<close>, \<open>inUEsc\<close>, the reader): it either
  leaves the function (\<open>Return\<close>: an error, or at the closing quote the value and
  \<open>reader.Len()\<close>) or goes round again (\<open>Continue\<close>). The iteration is the test
  of \<open>value.Len()\<close> at its head, then \<open>parseJSONString_iter\<close>, the rest of the
  loop body.
\<close>

definition readBuf :: "nat \<Rightarrow> string \<Rightarrow> string" where
  "readBuf n rd = take n rd @ replicate (n - length rd) NUL"

datatype strStep =
    Return "error + (string \<times> nat)"
  | Continue string bool bool string

definition parseJSONString_iter :: "string \<Rightarrow> bool \<Rightarrow> bool \<Rightarrow> string \<Rightarrow> strStep" where
  "parseJSONString_iter val inEsc inUEsc rd =
     (if inUEsc then
        (if length (take 4 rd) \<noteq> 4
           then Return (Inl (Error (''invalid unicode escape sequence '' @ [bsl] @ ''u''
                                     @ readBuf 4 rd)))
         else
           (case strconv_ParseUint16 (take 4 rd) of
              None \<Rightarrow> Return (Inl (Error (''invalid unicode escape sequence '' @ [bsl] @ ''u''
                                           @ take 4 rd)))
            | Some rn \<Rightarrow>
                if \<not> utf16_IsSurrogate rn
                  then Continue (val @ utf8_AppendRune rn) inEsc False (drop 4 rd)
                else if length (take 6 (drop 4 rd)) \<noteq> 6 \<or> rd ! 4 \<noteq> bsl \<or> rd ! 5 \<noteq> CHR ''u''
                  then Continue (val @ utf8_AppendRune RuneError) inEsc False (drop 4 rd)
                else
                  (case strconv_ParseUint16 (take 4 (drop 6 rd)) of
                     None \<Rightarrow> Return (Inl (Error (''invalid unicode escape sequence ''
                                                  @ take 6 (drop 4 rd))))
                   | Some rn1 \<Rightarrow>
                       if utf16_DecodeRune rn rn1 \<noteq> RuneError
                         then Continue (val @ utf8_AppendRune (utf16_DecodeRune rn rn1))
                                inEsc False (drop 10 rd)
                       else Continue val inEsc False (drop 10 rd))))
      else if inEsc then
        (case rd of
           [] \<Rightarrow> Return (Inl (Error ''EOF''))
         | b # rd' \<Rightarrow>
             if b = CHR ''b'' then Continue (val @ [CHR 0x08]) False inUEsc rd'
             else if b = CHR ''f'' then Continue (val @ [CHR 0x0C]) False inUEsc rd'
             else if b = CHR ''n'' then Continue (val @ [CHR 0x0A]) False inUEsc rd'
             else if b = CHR ''r'' then Continue (val @ [CHR 0x0D]) False inUEsc rd'
             else if b = CHR ''t'' then Continue (val @ [CHR 0x09]) False inUEsc rd'
             else if b = CHR ''u'' then Continue val False True rd'
             else if b = CHR ''/'' then Continue (val @ ''/'') False inUEsc rd'
             else if b = bsl then Continue (val @ [bsl]) False inUEsc rd'
             else if b = dq then Continue (val @ [dq]) False inUEsc rd'
             else Return (Inl (Error (''unexpected character in escape sequence ''
                                       @ utf8_AppendRune (of_char b)))))
      else
        (if rd = [] then Return (Inl (Error ''unexpected end of input''))
         else
           (case utf8_DecodeRune rd of
              (rn, sz) \<Rightarrow>
                if rn = of_char bsl then Continue val True inUEsc (drop sz rd)
                else if rn = of_char dq then Return (Inr (val, length (drop sz rd)))
                else Continue (val @ utf8_AppendRune rn) inEsc inUEsc (drop sz rd))))"

definition parseJSONString_step :: "string \<Rightarrow> bool \<Rightarrow> bool \<Rightarrow> string \<Rightarrow> strStep" where
  "parseJSONString_step val inEsc inUEsc rd =
     (if length val > 4096 then Return (Inl (Error ''string too large''))
      else parseJSONString_iter val inEsc inUEsc rd)"

text \<open>
  For evaluation the test of the length is done on \<open>int\<close>, the type of
  \<open>value.Len()\<close>, which computes in binary.
\<close>

lemma parseJSONString_step_code [code]:
  "parseJSONString_step val inEsc inUEsc rd =
     (if 4096 < int (length val) then Return (Inl (Error ''string too large''))
      else parseJSONString_iter val inEsc inUEsc rd)"
  by (simp add: parseJSONString_step_def)

lemma utf8_DecodeRune_size: "rd \<noteq> [] \<Longrightarrow> 0 < snd (utf8_DecodeRune rd)"
  by (cases rd) (auto simp add: utf8_DecodeRune_def Let_def)

lemma parseJSONString_iter_shorter:
  "parseJSONString_iter val inEsc inUEsc rd = Continue val' inEsc' inUEsc' rd'
     \<Longrightarrow> length rd' < length rd"
  using utf8_DecodeRune_size [of rd]
  by (auto simp add: parseJSONString_iter_def
           split: if_splits option.splits list.splits prod.splits)

lemma parseJSONString_step_shorter:
  "parseJSONString_step val inEsc inUEsc rd = Continue val' inEsc' inUEsc' rd'
     \<Longrightarrow> length rd' < length rd"
  by (auto simp add: parseJSONString_step_def parseJSONString_iter_shorter split: if_splits)

function parseJSONString_loop :: "string \<Rightarrow> bool \<Rightarrow> bool \<Rightarrow> string \<Rightarrow> error + (string \<times> nat)" where
  "parseJSONString_loop val inEsc inUEsc rd =
     (case parseJSONString_step val inEsc inUEsc rd of
        Return res \<Rightarrow> res
      | Continue val' inEsc' inUEsc' rd' \<Rightarrow> parseJSONString_loop val' inEsc' inUEsc' rd')"
  by pat_completeness auto

termination parseJSONString_loop
  by (relation "measure (\<lambda>(val, inEsc, inUEsc, rd). length rd)")
     (auto simp: parseJSONString_step_shorter)

declare parseJSONString_loop.simps [simp del]

definition parseJSONString :: "string \<Rightarrow> error + (string \<times> string)" where
  "parseJSONString r0 =
     (let r = skipSpace r0 in
      if length r < 2 then Inl (Error ''unexpected end of input'')
      else if r ! 0 = dq \<and> r ! 1 = dq then Inr ([], drop 2 r)
      else if r ! 0 \<noteq> dq
        then Inl (Error (''expected '' @ [dq] @ '' got '' @ utf8_AppendRune (of_char (r ! 0))))
      else
        (case parseJSONString_loop [] False False (tl r) of
           Inl e \<Rightarrow> Inl e
         | Inr (val, len) \<Rightarrow> Inr (val, drop len (tl r))))"

text \<open>
  A decoded JSON value is a Go \<open>any\<close>. The constructors are the dynamic types
  the program produces or asserts on: \<open>jsonObject\<close>, \<open>[]any\<close>, \<open>string\<close>,
  \<open>int64\<close> and \<open>bool\<close> are what the parser returns; \<open>[]jsonObject\<close> and
  \<open>[]string\<close> are types that \<open>perMachineMatches\<close> asserts on. A
  \<open>jsonObject\<close> (\<open>map[string]any\<close>) is an association list with distinct keys;
  \<open>obj[key] = value\<close> is \<^const>\<open>AList.update\<close>.
\<close>

datatype any = AObject "(string \<times> any) list" | AArray "any list" | AString string
  | AInt64 int | ABool bool | AObjectSlice "(string \<times> any) list list" | AStringSlice "string list"

type_synonym jsonObject = "(string \<times> any) list"

text \<open>Every successful parse returns a remainder no longer than its input.\<close>

lemma skipSpace_length: "length (skipSpace r) \<le> length r"
  by (induction r) auto

lemma findElementStart_loop_length:
  "findElementStart_loop s r = Inr r' \<Longrightarrow> length r' \<le> length r"
  by (induction s r rule: findElementStart_loop.induct)
     (auto simp: findElementStart_end_def split: if_splits)

lemma findElementStart_length: "findElementStart r = Inr r' \<Longrightarrow> length r' \<le> length r"
  by (simp add: findElementStart_def findElementStart_loop_length)

lemma parseJSONString_length: "parseJSONString r = Inr (v, r') \<Longrightarrow> length r' < length r"
  using skipSpace_length [of r]
  by (auto simp: parseJSONString_def Let_def split: if_splits sum.splits prod.splits)

text \<open>
  \<open>parseJSONElement\<close>, \<open>parseJSONObject\<close> and \<open>parseJSONArray\<close>, with the two
  \<open>for\<close> loops as functions of the loop state. \<open>parseJSONElement\<close> indexes
  \<open>r[0]\<close> without a length check: on a buffer that is empty after the white space
  it panics. Where an error is returned the Go functions also return a remainder, which
  no caller reads; the model returns the error alone.
\<close>

function parseJSONElement :: "string \<Rightarrow> error + (any \<times> string)"
  and parseJSONObject :: "string \<Rightarrow> error + (jsonObject \<times> string)"
  and parseJSONObject_loop :: "jsonObject \<Rightarrow> string \<Rightarrow> error + (jsonObject \<times> string)"
  and parseJSONArray :: "string \<Rightarrow> error + (any list \<times> string)"
  and parseJSONArray_loop :: "any list \<Rightarrow> string \<Rightarrow> error + (any list \<times> string)"
where
  "parseJSONElement r0 =
     (case skipSpace r0 of
        [] \<Rightarrow> Inl (Panic ''index out of range [0] with length 0'')
      | c # r' \<Rightarrow>
          if c = CHR ''{'' then
            (case parseJSONObject (c # r') of Inl e \<Rightarrow> Inl e | Inr (obj, rest) \<Rightarrow> Inr (AObject obj, rest))
          else if c = CHR ''['' then
            (case parseJSONArray (c # r') of Inl e \<Rightarrow> Inl e | Inr (els, rest) \<Rightarrow> Inr (AArray els, rest))
          else if c = dq then
            (case parseJSONString (c # r') of Inl e \<Rightarrow> Inl e | Inr (s, rest) \<Rightarrow> Inr (AString s, rest))
          else if c = CHR ''t'' \<or> c = CHR ''f'' then
            (case parseJSONBoolean (c # r') of Inl e \<Rightarrow> Inl e | Inr (b, rest) \<Rightarrow> Inr (ABool b, rest))
          else
            (case parseJSONInt64 (c # r') of Inl e \<Rightarrow> Inl e | Inr (n, rest) \<Rightarrow> Inr (AInt64 n, rest)))"
| "parseJSONObject r0 =
     (case skipSpace r0 of
        [] \<Rightarrow> Inl (Error ''unexpected end of input'')
      | c # r' \<Rightarrow>
          if r' = [] then Inl (Error ''unexpected end of input'')
          else if c \<noteq> CHR ''{'' then Inl (Error ''expected {'')
          else parseJSONObject_loop [] r')"
| "parseJSONObject_loop obj r =
     (if r = [] then Inl (Error ''unexpected end of input'')
      else if hd r = CHR ''}'' then Inr (obj, r)
      else
        (case parseJSONString r of
           Inl e \<Rightarrow> Inl e
         | Inr (key, rest) \<Rightarrow>
             (case findElementStart rest of
                Inl e \<Rightarrow> Inl e
              | Inr r1 \<Rightarrow>
                  (case parseJSONElement r1 of
                     Inl e \<Rightarrow> Inl e
                   | Inr (val, rest') \<Rightarrow> parseJSONObject_loop (AList.update key val obj) rest'))))"
| "parseJSONArray r0 =
     (case skipSpace r0 of
        [] \<Rightarrow> Inl (Error ''unexpected end of input'')
      | c # r' \<Rightarrow>
          if r' = [] then Inl (Error ''unexpected end of input'')
          else if c \<noteq> CHR ''['' then Inl (Error ''expected ['')
          else parseJSONArray_loop [] r')"
| "parseJSONArray_loop elements r =
     (if r = [] then Inl (Error ''unexpected end of input'')
      else if hd r = CHR '']'' then Inr (elements, r)
      else
        (case parseJSONElement r of
           Inl e \<Rightarrow> Inl e
         | Inr (element, rest) \<Rightarrow> parseJSONArray_loop (elements @ [element]) rest))"
  by pat_completeness auto


lemma parseJSONInt64_loop_length:
  "parseJSONInt64_loop num r = Inr (num', r') \<Longrightarrow> length r' + length num' = length r + length num"
  by (induction num r rule: parseJSONInt64_loop.induct) (auto split: if_splits)

lemma strconv_ParseInt_Nil: "strconv_ParseInt [] = Inl (numError [] ''invalid syntax'')"
  by (simp add: strconv_ParseInt_def)

lemma parseJSONInt64_length: "parseJSONInt64 r = Inr (n, r') \<Longrightarrow> length r' < length r"
proof -
  assume a: "parseJSONInt64 r = Inr (n, r')"
  then obtain num where l: "parseJSONInt64_loop [] (skipSpace r) = Inr (num, r')"
    and p: "strconv_ParseInt num = Inr n"
    by (auto simp: parseJSONInt64_def split: sum.splits prod.splits)
  from p have "num \<noteq> []" by (auto simp: strconv_ParseInt_Nil)
  with parseJSONInt64_loop_length [OF l] skipSpace_length [of r] show ?thesis
    by (cases num) auto
qed

lemma parseJSONBoolean_length: "parseJSONBoolean r = Inr (b, r') \<Longrightarrow> length r' < length r"
  using skipSpace_length [of r]
  by (auto simp: parseJSONBoolean_def Let_def split: if_splits)

lemmas parse_psimps =
  parseJSONElement.psimps parseJSONObject.psimps parseJSONObject_loop.psimps
  parseJSONArray.psimps parseJSONArray_loop.psimps

lemma parse_length_dom:
  "parseJSONElement_parseJSONObject_parseJSONObject_loop_parseJSONArray_parseJSONArray_loop_dom (Inl (Inl r1))
     \<Longrightarrow> (\<forall>v rest. parseJSONElement r1 = Inr (v, rest) \<longrightarrow> length rest < length r1)"
  "parseJSONElement_parseJSONObject_parseJSONObject_loop_parseJSONArray_parseJSONArray_loop_dom (Inl (Inr r2))
     \<Longrightarrow> (\<forall>v rest. parseJSONObject r2 = Inr (v, rest) \<longrightarrow> length rest < length r2)"
  "parseJSONElement_parseJSONObject_parseJSONObject_loop_parseJSONArray_parseJSONArray_loop_dom (Inr (Inl (obj, r3)))
     \<Longrightarrow> (\<forall>v rest. parseJSONObject_loop obj r3 = Inr (v, rest) \<longrightarrow> length rest \<le> length r3)"
  "parseJSONElement_parseJSONObject_parseJSONObject_loop_parseJSONArray_parseJSONArray_loop_dom (Inr (Inr (Inl r4)))
     \<Longrightarrow> (\<forall>v rest. parseJSONArray r4 = Inr (v, rest) \<longrightarrow> length rest < length r4)"
  "parseJSONElement_parseJSONObject_parseJSONObject_loop_parseJSONArray_parseJSONArray_loop_dom (Inr (Inr (Inr (els, r5))))
     \<Longrightarrow> (\<forall>v rest. parseJSONArray_loop els r5 = Inr (v, rest) \<longrightarrow> length rest \<le> length r5)"
proof (induction r1 and r2 and obj r3 and r4 and els r5
       rule: parseJSONElement_parseJSONObject_parseJSONObject_loop_parseJSONArray_parseJSONArray_loop.pinduct)
  case (1 r0)
  show ?case
  proof (intro allI impI)
    fix v rest assume a: "parseJSONElement r0 = Inr (v, rest)"
    show "length rest < length r0"
    proof (cases "skipSpace r0")
      case Nil
      with a 1(1) show ?thesis by (simp add: parse_psimps)
    next
      case (Cons c r')
      have le: "length (c # r') \<le> length r0" using skipSpace_length [of r0] Cons by simp
      from a 1(1) Cons 1(2) [OF Cons] 1(3) [OF Cons] le show ?thesis
        by (auto simp: parse_psimps split: if_splits sum.splits prod.splits
                 dest!: parseJSONString_length parseJSONBoolean_length parseJSONInt64_length)
    qed
  qed
next
  case (2 r0)
  show ?case
  proof (intro allI impI)
    fix v rest assume a: "parseJSONObject r0 = Inr (v, rest)"
    show "length rest < length r0"
    proof (cases "skipSpace r0")
      case Nil
      with a 2(1) show ?thesis by (simp add: parse_psimps)
    next
      case (Cons c r')
      have le: "length (c # r') \<le> length r0" using skipSpace_length [of r0] Cons by simp
      from a 2(1) Cons 2(2) [OF Cons] le show ?thesis
        by (auto simp: parse_psimps split: if_splits)
    qed
  qed
next
  case (3 obj r)
  show ?case
  proof (intro allI impI)
    fix v rest assume a: "parseJSONObject_loop obj r = Inr (v, rest)"
    show "length rest \<le> length r"
    proof (cases "r = [] \<or> hd r = CHR ''}''")
      case True
      with a 3(1) show ?thesis by (auto simp: parse_psimps split: if_splits)
    next
      case False
      then have n1: "r \<noteq> []" and n2: "hd r \<noteq> CHR ''}''" by auto
      from a 3(1) n1 n2 obtain key rest1 r1 val rest2 where
        s: "parseJSONString r = Inr (key, rest1)" and f: "findElementStart rest1 = Inr r1"
        and e: "parseJSONElement r1 = Inr (val, rest2)"
        and l: "parseJSONObject_loop (AList.update key val obj) rest2 = Inr (v, rest)"
        by (auto simp: parse_psimps split: sum.splits prod.splits)
      have "length rest2 < length r1" using 3(2) [OF n1 n2 s refl f] e by blast
      moreover have "length rest \<le> length rest2"
        using 3(3) [OF n1 n2 s refl f e refl] l by blast
      moreover have "length r1 < length r"
        using parseJSONString_length [OF s] findElementStart_length [OF f] by simp
      ultimately show ?thesis by simp
    qed
  qed
next
  case (4 r0)
  show ?case
  proof (intro allI impI)
    fix v rest assume a: "parseJSONArray r0 = Inr (v, rest)"
    show "length rest < length r0"
    proof (cases "skipSpace r0")
      case Nil
      with a 4(1) show ?thesis by (simp add: parse_psimps)
    next
      case (Cons c r')
      have le: "length (c # r') \<le> length r0" using skipSpace_length [of r0] Cons by simp
      from a 4(1) Cons 4(2) [OF Cons] le show ?thesis
        by (auto simp: parse_psimps split: if_splits)
    qed
  qed
next
  case (5 elements r)
  show ?case
  proof (intro allI impI)
    fix v rest assume a: "parseJSONArray_loop elements r = Inr (v, rest)"
    show "length rest \<le> length r"
    proof (cases "r = [] \<or> hd r = CHR '']''")
      case True
      with a 5(1) show ?thesis by (auto simp: parse_psimps split: if_splits)
    next
      case False
      then have n1: "r \<noteq> []" and n2: "hd r \<noteq> CHR '']''" by auto
      from a 5(1) n1 n2 obtain element rest1 where
        e: "parseJSONElement r = Inr (element, rest1)"
        and l: "parseJSONArray_loop (elements @ [element]) rest1 = Inr (v, rest)"
        by (auto simp: parse_psimps split: sum.splits prod.splits)
      have "length rest1 < length r" using 5(2) [OF n1 n2] e by blast
      moreover have "length rest \<le> length rest1" using 5(3) [OF n1 n2 e refl] l by blast
      ultimately show ?thesis by simp
    qed
  qed
qed

termination parseJSONElement
proof (relation "measure (\<lambda>x. case x of
          Inl (Inl r) \<Rightarrow> 4 * length r + 2
        | Inl (Inr r) \<Rightarrow> 4 * length r + 1
        | Inr (Inl (obj, r)) \<Rightarrow> 4 * length r + 3
        | Inr (Inr (Inl r)) \<Rightarrow> 4 * length r + 1
        | Inr (Inr (Inr (els, r))) \<Rightarrow> 4 * length r + 3)", goal_cases)
  case 1
  show ?case by simp
next
  case (2 r0 c r')
  then show ?case using skipSpace_length [of r0] by simp
next
  case (3 r0 c r')
  then show ?case using skipSpace_length [of r0] by simp
next
  case (4 r0 c r')
  then show ?case using skipSpace_length [of r0] by simp
next
  case (5 obj r b key rest r1)
  then show ?case
    using parseJSONString_length [of r key rest] findElementStart_length [of rest r1] by simp
next
  case (6 obj r b key rest r1 bb val rest')
  then show ?case
    using parseJSONString_length [of r key rest] findElementStart_length [of rest r1]
      parse_length_dom(1) [of r1] by fastforce
next
  case (7 r0 c r')
  then show ?case using skipSpace_length [of r0] by simp
next
  case (8 elements r)
  then show ?case by simp
next
  case (9 elements r b element rest)
  then show ?case using parse_length_dom(1) [of r] by fastforce
qed

declare parseJSONElement.simps [simp del] parseJSONObject.simps [simp del]
  parseJSONObject_loop.simps [simp del] parseJSONArray.simps [simp del]
  parseJSONArray_loop.simps [simp del]

text \<open>
  \<open>jsonObjectGet[T]\<close>: the value under \<open>key\<close> if it is present and its dynamic type is
  exactly \<open>T\<close>. One function per instantiation the client uses.
\<close>

definition jsonObjectGet_string :: "jsonObject \<Rightarrow> string \<Rightarrow> string option" where
  "jsonObjectGet_string o' key = (case map_of o' key of Some (AString s) \<Rightarrow> Some s | _ \<Rightarrow> None)"

definition jsonObjectGet_int64 :: "jsonObject \<Rightarrow> string \<Rightarrow> int option" where
  "jsonObjectGet_int64 o' key = (case map_of o' key of Some (AInt64 n) \<Rightarrow> Some n | _ \<Rightarrow> None)"

definition jsonObjectGet_bool :: "jsonObject \<Rightarrow> string \<Rightarrow> bool option" where
  "jsonObjectGet_bool o' key = (case map_of o' key of Some (ABool b) \<Rightarrow> Some b | _ \<Rightarrow> None)"

definition jsonObjectGet_jsonObject :: "jsonObject \<Rightarrow> string \<Rightarrow> jsonObject option" where
  "jsonObjectGet_jsonObject o' key =
     (case map_of o' key of Some (AObject x) \<Rightarrow> Some x | _ \<Rightarrow> None)"

definition jsonObjectGet_jsonObjectSlice :: "jsonObject \<Rightarrow> string \<Rightarrow> jsonObject list option" where
  "jsonObjectGet_jsonObjectSlice o' key =
     (case map_of o' key of Some (AObjectSlice xs) \<Rightarrow> Some xs | _ \<Rightarrow> None)"

definition jsonObjectGet_stringSlice :: "jsonObject \<Rightarrow> string \<Rightarrow> string list option" where
  "jsonObjectGet_stringSlice o' key =
     (case map_of o' key of Some (AStringSlice xs) \<Rightarrow> Some xs | _ \<Rightarrow> None)"

section \<open>The client (userdbclient.go and the Linux client file)\<close>

definition userdbMuxSvc :: string where "userdbMuxSvc = ''io.systemd.Multiplexer''"
definition userdbNamespace :: string where "userdbNamespace = ''io.systemd.UserDatabase''"
definition mGetGroupRecord :: string where "mGetGroupRecord = userdbNamespace @ ''.GetGroupRecord''"
definition mGetUserRecord :: string where "mGetUserRecord = userdbNamespace @ ''.GetUserRecord''"
definition mGetMemberships :: string where "mGetMemberships = userdbNamespace @ ''.GetMemberships''"
definition errNoRecordFound :: string where "errNoRecordFound = userdbNamespace @ ''.NoRecordFound''"
definition errServiceNotAvailable :: string where
  "errServiceNotAvailable = userdbNamespace @ ''.ServiceNotAvailable''"

record perMachineRecord =
  machineId :: string
  hostname :: string

text \<open>A nil \<open>*int64\<close> is \<open>None\<close>.\<close>

record callParameters =
  uid :: "int option"
  userName :: string
  gid :: "int option"
  groupName :: string

text \<open>\<open>userdbCall\<close>; its fields \<open>method\<close> and \<open>more\<close> are named
  \<open>method'\<close> and \<open>more'\<close> here.\<close>

record userdbCall =
  method' :: string
  parameters :: callParameters
  more' :: bool

definition callParameters_marshalJSON :: "callParameters \<Rightarrow> string" where
  "callParameters_marshalJSON c =
     ''{'' @ [dq] @ ''service'' @ [dq] @ '':'' @ [dq] @ userdbMuxSvc @ [dq]
     @ (case uid c of None \<Rightarrow> []
        | Some n \<Rightarrow> '','' @ [dq] @ ''uid'' @ [dq] @ '':'' @ strconv_FormatInt n)
     @ (if userName c \<noteq> []
        then '','' @ [dq] @ ''userName'' @ [dq] @ '':'' @ [dq] @ userName c @ [dq] else [])
     @ (case gid c of None \<Rightarrow> []
        | Some n \<Rightarrow> '','' @ [dq] @ ''gid'' @ [dq] @ '':'' @ strconv_FormatInt n)
     @ (if groupName c \<noteq> []
        then '','' @ [dq] @ ''groupName'' @ [dq] @ '':'' @ [dq] @ groupName c @ [dq] else [])
     @ ''}''"

definition userdbCall_marshalJSON :: "userdbCall \<Rightarrow> string" where
  "userdbCall_marshalJSON u =
     ''{'' @ [dq] @ ''method'' @ [dq] @ '':'' @ [dq] @ method' u @ [dq] @ '',''
     @ [dq] @ ''parameters'' @ [dq] @ '':'' @ callParameters_marshalJSON (parameters u)
     @ (if more' u then '','' @ [dq] @ ''more'' @ [dq] @ '':true'' else [])
     @ ''}''"

text \<open>
  \<open>userdbReply\<close>; the field \<open>err\<close> is named \<open>rerr\<close> here. A nil \<open>parameters\<close> map
  reads like the empty one. \<open>unmarshal\<close> is only called on a fresh zero reply.
\<close>

record userdbReply =
  rerr :: string
  continues :: bool
  rparameters :: jsonObject

definition userdbReply_unmarshal :: "string \<Rightarrow> error + userdbReply" where
  "userdbReply_unmarshal data =
     (case parseJSONObject data of
        Inl e \<Rightarrow> Inl e
      | Inr (reply, rest) \<Rightarrow>
          Inr \<lparr> rerr = (case jsonObjectGet_string reply ''error'' of Some e \<Rightarrow> e | None \<Rightarrow> []),
                continues = (case jsonObjectGet_bool reply ''continues'' of
                               Some c \<Rightarrow> c | None \<Rightarrow> False),
                rparameters = (case jsonObjectGet_jsonObject reply ''parameters'' of
                                 Some p \<Rightarrow> p | None \<Rightarrow> []) \<rparr>)"

text \<open>
  The socket is the environment of \<open>query\<close>. What the system calls do between the
  request being built and the response buffer being complete is given by a
  \<open>transport\<close>: one constructor for each way the calls can end, in the order of the
  source. \<open>Response\<close> carries the bytes accumulated in \<open>resp\<close> when the read loop
  ends (at a chunk whose last byte is NUL, or at end of file). An error is the text of
  its \<open>Error()\<close>; a nil error is \<open>None\<close>.
\<close>

datatype transport =
    SocketFails string
  | ConnectNotExist string
  | ConnectFails string
  | WriteDeadline string
  | WriteFails string
  | ReadDeadline string
  | ReadFails string
  | Response string

text \<open>\<open>bytes.Split(buf, []byte{0})\<close>.\<close>

fun splitNUL_acc :: "string \<Rightarrow> string \<Rightarrow> string list" where
  "splitNUL_acc cur [] = [cur]"
| "splitNUL_acc cur (c # cs) =
     (if c = NUL then cur # splitNUL_acc [] cs else splitNUL_acc (cur @ [c]) cs)"

definition splitNUL :: "string \<Rightarrow> string list" where
  "splitNUL buf = splitNUL_acc [] buf"

text \<open>
  The outcome of a call: it returns, or a panic unwinds through it. The loop over the
  messages either leaves \<open>query\<close> with \<open>(handled, err)\<close> or ends with the collected
  \<open>replyParams\<close>.
\<close>

datatype 'a outcome = Returns 'a | Panics string

datatype msgsResult =
    Leave bool "string option"
  | Collected "jsonObject list"

fun query_msgs :: "jsonObject list \<Rightarrow> string list \<Rightarrow> msgsResult outcome" where
  "query_msgs replyParams [] = Returns (Collected replyParams)"
| "query_msgs replyParams (m # msgs) =
     (case userdbReply_unmarshal m of
        Inl (Panic p) \<Rightarrow> Panics p
      | Inl (Error e) \<Rightarrow> Returns (Leave True (Some e))
      | Inr resp \<Rightarrow>
          if rerr resp = [] then
            (if \<not> continues resp then Returns (Collected (replyParams @ [rparameters resp]))
             else query_msgs (replyParams @ [rparameters resp]) msgs)
          else if rerr resp = errNoRecordFound then query_msgs replyParams msgs
          else if rerr resp = errServiceNotAvailable then Returns (Leave False None)
          else Returns (Leave True (Some (rerr resp))))"

text \<open>
  \<open>query\<close>. \<open>query_request\<close> is the request with its NUL terminator;
  \<open>srv\<close> is the service: the transport outcome for the request bytes written.
  \<open>u\<close> is the receiver of \<open>unmarshalParameters\<close> and \<open>unm\<close> its method, which returns
  the error text or the updated receiver. The result is \<open>(handled, err, u)\<close>.
\<close>

definition query_request :: "userdbCall \<Rightarrow> string" where
  "query_request call =
     (let request = userdbCall_marshalJSON call
      in if last request \<noteq> NUL then request @ [NUL] else request)"

definition query ::
    "(string \<Rightarrow> transport) \<Rightarrow> userdbCall \<Rightarrow> 'u \<Rightarrow> ('u \<Rightarrow> jsonObject list \<Rightarrow> string + 'u)
       \<Rightarrow> (bool \<times> string option \<times> 'u) outcome" where
  "query srv call u unm =
     (case srv (query_request call) of
       SocketFails e \<Rightarrow> Returns (False, Some e, u)
     | ConnectNotExist e \<Rightarrow> Returns (False, Some e, u)
     | ConnectFails e \<Rightarrow> Returns (True, Some e, u)
     | WriteDeadline e \<Rightarrow> Returns (True, Some e, u)
     | WriteFails e \<Rightarrow> Returns (True, Some e, u)
     | ReadDeadline e \<Rightarrow> Returns (True, Some e, u)
     | ReadFails e \<Rightarrow> Returns (True, Some e, u)
     | Response resp \<Rightarrow>
         if resp = [] then Returns (True, None, u)
         else
           (case query_msgs [] (splitNUL (butlast resp)) of
              Panics p \<Rightarrow> Panics p
            | Returns (Leave handled err) \<Rightarrow> Returns (handled, err, u)
            | Returns (Collected replyParams) \<Rightarrow>
                (case unm u replyParams of
                   Inl e \<Rightarrow> Returns (True, Some e, u)
                 | Inr u' \<Rightarrow> Returns (True, None, u'))))"

text \<open>\<open>perMachineMatches\<close>: \<open>perMachineMatch\<close> is the body of its loop for one entry.\<close>

definition perMachineMatch :: "'a perMachineRecord_scheme \<Rightarrow> jsonObject \<Rightarrow> bool" where
  "perMachineMatch p per =
     (let m1 = (case jsonObjectGet_stringSlice per ''matchMachineId'' of
                  Some mids \<Rightarrow> machineId p \<in> set mids | None \<Rightarrow> False);
          m2 = (if \<not> m1
                then (case jsonObjectGet_string per ''marchMachineId'' of
                        Some mid \<Rightarrow> mid = machineId p | None \<Rightarrow> False)
                else m1);
          m3 = (if \<not> m2
                then (case jsonObjectGet_stringSlice per ''matchHostname'' of
                        Some mhs \<Rightarrow> hostname p \<in> set mhs | None \<Rightarrow> False)
                else m2);
          m4 = (if \<not> m3
                then (case jsonObjectGet_string per ''matchHostname'' of
                        Some mh \<Rightarrow> mh = hostname p | None \<Rightarrow> False)
                else m3)
      in m4)"

definition perMachineMatches :: "'a perMachineRecord_scheme \<Rightarrow> jsonObject \<Rightarrow> jsonObject list" where
  "perMachineMatches p obj =
     (case jsonObjectGet_jsonObjectSlice obj ''perMachine'' of
        None \<Rightarrow> []
      | Some perMachine \<Rightarrow> filter (perMachineMatch p) perMachine)"

definition machineBoundRecord :: "string \<Rightarrow> jsonObject \<Rightarrow> jsonObject option" where
  "machineBoundRecord machineID obj =
     (case jsonObjectGet_jsonObject obj ''binding'' of
        None \<Rightarrow> None
      | Some binding \<Rightarrow> jsonObjectGet_jsonObject binding machineID)"

text \<open>
  \<open>groupRecord\<close> and \<open>userRecord\<close> embed \<open>perMachineRecord\<close>. Each
  \<open>unmarshalParameters\<close> takes its receiver and returns the error text or the updated
  receiver; no field is written before the last error return.
\<close>

record groupRecord = perMachineRecord +
  groupName :: string
  gid :: int

definition groupRecord_setGid :: "jsonObject \<Rightarrow> groupRecord \<Rightarrow> groupRecord" where
  "groupRecord_setGid obj g =
     (case jsonObjectGet_int64 obj ''gid'' of
        Some n \<Rightarrow> g\<lparr>groupRecord.gid := n\<rparr> | None \<Rightarrow> g)"

definition groupRecord_unmarshalParameters ::
    "groupRecord \<Rightarrow> jsonObject list \<Rightarrow> string + groupRecord" where
  "groupRecord_unmarshalParameters g params =
     (if length params \<noteq> 1 then Inl ''unexpected userdb reply''
      else case jsonObjectGet_jsonObject (params ! 0) ''record'' of
        None \<Rightarrow> Inl ''missing or invalid record in userdb reply''
      | Some record \<Rightarrow>
          (case jsonObjectGet_string record ''groupName'' of
             None \<Rightarrow> Inl ''missing or invalid groupName in userdb reply''
           | Some name \<Rightarrow>
               (let g1 = g\<lparr>groupRecord.groupName := name\<rparr>;
                    g2 = groupRecord_setGid record g1;
                    g3 = foldl (\<lambda>g' match. groupRecord_setGid match g') g2
                           (perMachineMatches g2 record);
                    g4 = (case machineBoundRecord (machineId g3) record of
                            Some rec \<Rightarrow> groupRecord_setGid rec g3 | None \<Rightarrow> g3)
                in Inr g4)))"

record userRecord = perMachineRecord +
  userName :: string
  realName :: string
  uid :: int
  gid :: int
  homeDirectory :: string

text \<open>
  The four \<open>if ..., ok := jsonObjectGet...; ok\<close> statements that the base record,
  each match and the machine-bound record are put through, in the source's order.
\<close>

definition userRecord_setFields :: "jsonObject \<Rightarrow> userRecord \<Rightarrow> userRecord" where
  "userRecord_setFields obj u =
     (let u1 = (case jsonObjectGet_string obj ''realName'' of
                  Some v \<Rightarrow> u\<lparr>realName := v\<rparr> | None \<Rightarrow> u);
          u2 = (case jsonObjectGet_int64 obj ''uid'' of
                  Some v \<Rightarrow> u1\<lparr>userRecord.uid := v\<rparr> | None \<Rightarrow> u1);
          u3 = (case jsonObjectGet_int64 obj ''gid'' of
                  Some v \<Rightarrow> u2\<lparr>userRecord.gid := v\<rparr> | None \<Rightarrow> u2);
          u4 = (case jsonObjectGet_string obj ''homeDirectory'' of
                  Some v \<Rightarrow> u3\<lparr>homeDirectory := v\<rparr> | None \<Rightarrow> u3)
      in u4)"

definition userRecord_unmarshalParameters ::
    "userRecord \<Rightarrow> jsonObject list \<Rightarrow> string + userRecord" where
  "userRecord_unmarshalParameters u params =
     (if length params \<noteq> 1 then Inl ''unexpected userdb reply''
      else case jsonObjectGet_jsonObject (params ! 0) ''record'' of
        None \<Rightarrow> Inl ''missing or invalid record in userdb reply''
      | Some record \<Rightarrow>
          (case jsonObjectGet_string record ''userName'' of
             None \<Rightarrow> Inl ''missing or invalid userName in userdb reply''
           | Some name \<Rightarrow>
               (let u1 = u\<lparr>userRecord.userName := name\<rparr>;
                    u2 = userRecord_setFields record u1;
                    u3 = foldl (\<lambda>u' match. userRecord_setFields match u') u2
                           (perMachineMatches u2 record);
                    u4 = (case machineBoundRecord (machineId u3) record of
                            Some rec \<Rightarrow> userRecord_setFields rec u3 | None \<Rightarrow> u3)
                in Inr u4)))"

text \<open>
  The results \<open>Group\<close> and \<open>User\<close> of package \<open>os/user\<close>, and
  \<open>fmt.Errorf(".. %s", err)\<close>, which prints a nil error as \<open>%!s(<nil>)\<close>.
\<close>

record Group =
  Gid :: string
  Name :: string

record User =
  Uid :: string
  Gid :: string
  Username :: string
  Name :: string
  HomeDir :: string

definition fmt_s :: "string option \<Rightarrow> string" where
  "fmt_s err = (case err of None \<Rightarrow> ''%!s(<nil>)'' | Some e \<Rightarrow> e)"

definition zeroGroupRecord :: groupRecord where
  "zeroGroupRecord = \<lparr> machineId = [], hostname = [],
                        groupRecord.groupName = [], groupRecord.gid = 0 \<rparr>"

definition zeroUserRecord :: userRecord where
  "zeroUserRecord = \<lparr> machineId = [], hostname = [], userName = [], realName = [],
                       uid = 0, gid = 0, homeDirectory = [] \<rparr>"

text \<open>The calls that \<open>queryGroupDb\<close> and \<open>queryUserDb\<close> build.\<close>

definition groupRequest :: "int option \<Rightarrow> string \<Rightarrow> userdbCall" where
  "groupRequest gid' groupname =
     \<lparr> method' = mGetGroupRecord,
       parameters = \<lparr> callParameters.uid = None, callParameters.userName = [],
                      callParameters.gid = gid', callParameters.groupName = groupname \<rparr>,
       more' = False \<rparr>"

definition userRequest :: "int option \<Rightarrow> string \<Rightarrow> userdbCall" where
  "userRequest uid' username =
     \<lparr> method' = mGetUserRecord,
       parameters = \<lparr> callParameters.uid = uid', callParameters.userName = username,
                      callParameters.gid = None, callParameters.groupName = [] \<rparr>,
       more' = False \<rparr>"

text \<open>
  The query operations return \<open>(result, handled, err)\<close>. \<open>queryGroupDb\<close> and
  \<open>queryUserDb\<close> start from a zero record: the machine identity of the client is not
  copied into it.
\<close>

definition queryGroupDb ::
    "(string \<Rightarrow> transport) \<Rightarrow> int option \<Rightarrow> string \<Rightarrow> (Group option \<times> bool \<times> string option) outcome" where
  "queryGroupDb srv gid' groupname =
     (case query srv (groupRequest gid' groupname) zeroGroupRecord
             groupRecord_unmarshalParameters of
        Panics p \<Rightarrow> Panics p
      | Returns (ok, err, grp) \<Rightarrow>
          if \<not> ok \<or> err \<noteq> None
            then Returns (None, ok,
                   Some (''error querying systemd-userdb group record: '' @ fmt_s err))
          else Returns (Some \<lparr> Group.Gid = strconv_FormatInt (groupRecord.gid grp),
                                Group.Name = groupRecord.groupName grp \<rparr>, True, None))"

definition queryUserDb ::
    "(string \<Rightarrow> transport) \<Rightarrow> int option \<Rightarrow> string \<Rightarrow> (User option \<times> bool \<times> string option) outcome" where
  "queryUserDb srv uid' username =
     (case query srv (userRequest uid' username) zeroUserRecord
             userRecord_unmarshalParameters of
        Panics p \<Rightarrow> Panics p
      | Returns (ok, err, usr) \<Rightarrow>
          if \<not> ok \<or> err \<noteq> None
            then Returns (None, ok,
                   Some (''error querying systemd-userdb user record: '' @ fmt_s err))
          else Returns (Some \<lparr> Uid = strconv_FormatInt (userRecord.uid usr),
                                Gid = strconv_FormatInt (userRecord.gid usr),
                                Username = userRecord.userName usr,
                                Name = realName usr,
                                HomeDir = homeDirectory usr \<rparr>, True, None))"

definition lookupGroup ::
    "(string \<Rightarrow> transport) \<Rightarrow> string \<Rightarrow> (Group option \<times> bool \<times> string option) outcome" where
  "lookupGroup srv groupname = queryGroupDb srv None groupname"

definition error_text :: "error \<Rightarrow> string" where
  "error_text e = (case e of Error m \<Rightarrow> m | Panic m \<Rightarrow> m)"

definition lookupGroupId ::
    "(string \<Rightarrow> transport) \<Rightarrow> string \<Rightarrow> (Group option \<times> bool \<times> string option) outcome" where
  "lookupGroupId srv id' =
     (case strconv_ParseInt id' of
        Inl e \<Rightarrow> Returns (None, True, Some (error_text e))
      | Inr n \<Rightarrow> queryGroupDb srv (Some n) [])"

definition lookupUser ::
    "(string \<Rightarrow> transport) \<Rightarrow> string \<Rightarrow> (User option \<times> bool \<times> string option) outcome" where
  "lookupUser srv username = queryUserDb srv None username"

definition lookupUserId ::
    "(string \<Rightarrow> transport) \<Rightarrow> string \<Rightarrow> (User option \<times> bool \<times> string option) outcome" where
  "lookupUserId srv id' =
     (case strconv_ParseInt id' of
        Inl e \<Rightarrow> Returns (None, True, Some (error_text e))
      | Inr n \<Rightarrow> queryUserDb srv (Some n) [])"

text \<open>
  \<open>memberships\<close>: \<open>groupUsers\<close> maps a group name to a set of user names, and is
  nil (empty) until \<open>unmarshalParameters\<close> makes it.
\<close>

record memberships =
  groupUsers :: "(string \<times> string set) list"

fun memberships_loop ::
    "(string \<times> string set) list \<Rightarrow> jsonObject list \<Rightarrow> string + (string \<times> string set) list" where
  "memberships_loop gu [] = Inr gu"
| "memberships_loop gu (ps # params) =
     (case jsonObjectGet_string ps ''userName'' of
        None \<Rightarrow> Inl ''missing or invalid userName in userdb reply''
      | Some user \<Rightarrow>
          (case jsonObjectGet_string ps ''groupName'' of
             None \<Rightarrow> Inl ''missing or invalid groupName in userdb reply''
           | Some grp \<Rightarrow>
               (case map_of gu grp of
                  Some users \<Rightarrow> memberships_loop (AList.update grp (insert user users) gu) params
                | None \<Rightarrow> memberships_loop (AList.update grp {user} gu) params)))"

definition memberships_unmarshalParameters ::
    "memberships \<Rightarrow> jsonObject list \<Rightarrow> string + memberships" where
  "memberships_unmarshalParameters m params =
     (case memberships_loop [] params of
        Inl e \<Rightarrow> Inl e
      | Inr gu \<Rightarrow> Inr (m\<lparr>groupUsers := gu\<rparr>))"

text \<open>
  \<open>lookupGroupIds\<close>. Go leaves the order of \<open>for g := range ms.groupUsers\<close>
  unspecified: \<open>iter\<close> is the order the run time picks for a list of keys. The loop
  carries the request (only its \<open>groupName\<close> is reassigned) and the \<open>gids\<close> slice.
\<close>

definition membershipsRequest :: "string \<Rightarrow> userdbCall" where
  "membershipsRequest username =
     \<lparr> method' = mGetMemberships,
       parameters = \<lparr> callParameters.uid = None, callParameters.userName = username,
                      callParameters.gid = None, callParameters.groupName = [] \<rparr>,
       more' = True \<rparr>"

fun lookupGroupIds_loop ::
    "(string \<Rightarrow> transport) \<Rightarrow> userdbCall \<Rightarrow> string list \<Rightarrow> string list
       \<Rightarrow> (string list option \<times> bool \<times> string option) outcome" where
  "lookupGroupIds_loop srv request gids [] = Returns (Some gids, True, None)"
| "lookupGroupIds_loop srv request gids (g # gs) =
     (let request' = request\<lparr> parameters := (parameters request)\<lparr> callParameters.groupName := g \<rparr> \<rparr>
      in case query srv request' zeroGroupRecord groupRecord_unmarshalParameters of
           Panics p \<Rightarrow> Panics p
         | Returns (ok, err, grp) \<Rightarrow>
             if \<not> ok \<or> err \<noteq> None
               then Returns (None, ok,
                      Some (''error querying systemd-userdb group record: '' @ fmt_s err))
             else lookupGroupIds_loop srv request'
                    (gids @ [strconv_FormatInt (groupRecord.gid grp)]) gs)"

definition lookupGroupIds ::
    "(string \<Rightarrow> transport) \<Rightarrow> (string list \<Rightarrow> string list) \<Rightarrow> string
       \<Rightarrow> (string list option \<times> bool \<times> string option) outcome" where
  "lookupGroupIds srv iter username =
     (case query srv (membershipsRequest username) \<lparr> groupUsers = [] \<rparr>
             memberships_unmarshalParameters of
        Panics p \<Rightarrow> Panics p
      | Returns (ok, err, ms) \<Rightarrow>
          if \<not> ok \<or> err \<noteq> None
            then Returns (None, ok,
                   Some (''error querying systemd-userdb memberships record: '' @ fmt_s err))
          else
            (case query srv (groupRequest None username) zeroGroupRecord
                    groupRecord_unmarshalParameters of
               Panics p \<Rightarrow> Panics p
             | Returns (ok, err, grp) \<Rightarrow>
                 if \<not> ok \<or> err \<noteq> None then Returns (None, ok, err)
                 else lookupGroupIds_loop srv (groupRequest None username)
                        [strconv_FormatInt (groupRecord.gid grp)]
                        (iter (map fst (groupUsers ms)))))"

section \<open>The fixtures of the client's tests\<close>

text \<open>
  The request and the reply of \<open>TestUserdbLookupGroup\<close>. The test server answers
  the request it knows with the reply followed by a NUL byte, and closes the connection
  on any other request.
\<close>

definition groupFixtureRequest :: string where
  \<open>groupFixtureRequest = ''{"method":"io.systemd.UserDatabase.GetGroupRecord","parameters":{"service":"io.systemd.Multiplexer","groupName":"stdlibcontrib"}}''\<close>

definition groupFixtureReply :: string where
  \<open>groupFixtureReply = ''{"parameters":{"record":{"groupName":"stdlibcontrib","gid":181,"members":["stdlibcontrib"],"status":{"ecb5a44f1a5846ad871566e113bf8937":{"service":"io.systemd.NameServiceSwitch"}}},"incomplete":false}}''\<close>

definition groupFixtureSrv :: "string \<Rightarrow> transport" where
  "groupFixtureSrv request =
     (if request = groupFixtureRequest @ [NUL] then Response (groupFixtureReply @ [NUL])
      else Response [])"

section \<open>C1: the group fixture\<close>

text \<open>
  C1. The claim: \<open>lookupGroup\<close> of \<open>stdlibcontrib\<close> against the fixture reply is
  handled, returns no error and the group \<open>{Name: stdlibcontrib, Gid: 181}\<close>.
  The code does not: the request it sends is the fixture's, the reply comes back, and
  \<open>parseJSONObject\<close> rejects it. After the first key, \<open>parseJSONString\<close> returns
  \<open>r[reader.Len():]\<close>, the last eleven bytes of the message, where a colon is
  expected; the call is handled and ends with an error and no group.
\<close>

theorem lookupGroup_fixture_fails:
  "userdbCall_marshalJSON (groupRequest None ''stdlibcontrib'') = groupFixtureRequest
   \<and> parseJSONObject groupFixtureReply
       = Inl (Error ''expected colon, got invalid character: t'')
   \<and> lookupGroup groupFixtureSrv ''stdlibcontrib''
       = Returns (None, True,
           Some ''error querying systemd-userdb group record: expected colon, got invalid character: t'')"
  by code_simp

section \<open>C2: malformed input and the end of the buffer\<close>

text \<open>
  C2. The claim: every parse function returns a value or an error on every input, and
  \<open>parseJSONElement\<close> on an empty or all-blank buffer returns an error. The code
  indexes \<open>r[0]\<close> after skipping the white space without testing the length: on the
  empty buffer, on a blank one, and from \<open>parseJSONArray\<close> on \<open>[\<close> followed by a
  blank, it panics with an index out of range.
\<close>

theorem parseJSONElement_blank_panics:
  "parseJSONElement [] = Inl (Panic ''index out of range [0] with length 0'')
   \<and> parseJSONElement '' '' = Inl (Panic ''index out of range [0] with length 0'')
   \<and> parseJSONArray ''[ '' = Inl (Panic ''index out of range [0] with length 0'')"
  by code_simp

section \<open>C9: surrogates in string escapes\<close>

text \<open>
  C9. The claim: a high surrogate escape that is not followed by a valid low surrogate
  yields one U+FFFD, and parsing resumes just after the high surrogate escape. The code
  does so only when the six bytes that follow are not of the form of a \<open>u\<close> escape.
  When they are an escape that is not a low surrogate, as in the string literal
  of \<open>uD800\<close> followed by \<open>u0041\<close>, the six bytes are consumed and nothing is
  written: the value is empty, not U+FFFD followed by \<open>A\<close>. A valid pair, and a high
  surrogate before the closing quote, decode as the claim says.
\<close>

theorem parseJSONString_unpaired_surrogate_dropped:
  "parseJSONString (dq # bsl # ''uD800'' @ bsl # ''u0041'' @ [dq])
     = Inr ([], bsl # ''uD800'' @ bsl # ''u0041'' @ [dq])
   \<and> parseJSONString (dq # bsl # ''uD800'' @ bsl # ''uDC00'' @ [dq])
     = Inr ([CHR 0xF0, CHR 0x90, CHR 0x80, CHR 0x80], bsl # ''uD800'' @ bsl # ''uDC00'' @ [dq])
   \<and> parseJSONString (dq # bsl # ''uD800'' @ [dq])
     = Inr ([CHR 0xEF, CHR 0xBF, CHR 0xBD], bsl # ''uD800'' @ [dq])"
  by code_simp

section \<open>C7: the integer parser\<close>

lemma isDigit_not_space: "isDigit c \<Longrightarrow> \<not> isSpace c"
  by (auto simp: isDigit_def isSpace_def)

lemma skipSpace_blank_prefix: "list_all isSpace ws \<Longrightarrow> skipSpace (ws @ r) = skipSpace r"
  by (induction ws) auto

lemma skipSpace_start: "r = [] \<or> \<not> isSpace (hd r) \<Longrightarrow> skipSpace r = r"
  by (cases r) auto

lemma int_loop_run:
  "list_all isDigit ds \<Longrightarrow> length num + length ds \<le> 19
     \<Longrightarrow> rest = [] \<or> \<not> isDigit (hd rest)
     \<Longrightarrow> parseJSONInt64_loop num (ds @ rest) = Inr (num @ ds, rest)"
proof (induction ds arbitrary: num)
  case Nil
  then show ?case by (cases rest) auto
next
  case (Cons d ds)
  from Cons.prems have "parseJSONInt64_loop (num @ [d]) (ds @ rest) = Inr ((num @ [d]) @ ds, rest)"
    by (intro Cons.IH) auto
  with Cons.prems show ?case by simp
qed

lemma int_loop_too_large:
  "list_all isDigit ds \<Longrightarrow> length num \<le> 20 \<Longrightarrow> 21 \<le> length num + length (ds @ rest)
     \<Longrightarrow> 20 \<le> length num + length ds
     \<Longrightarrow> parseJSONInt64_loop num (ds @ rest) = Inl (Error ''number too large'')"
proof (induction ds arbitrary: num)
  case Nil
  then show ?case by (cases rest) auto
next
  case (Cons d ds)
  show ?case
  proof (cases "length num = 20")
    case True
    then show ?thesis by simp
  next
    case False
    with Cons.prems have "parseJSONInt64_loop (num @ [d]) (ds @ rest) = Inl (Error ''number too large'')"
      by (intro Cons.IH) auto
    with Cons.prems False show ?thesis by simp
  qed
qed

lemma strconv_ParseInt_digits:
  "list_all isDigit ds \<Longrightarrow> ds \<noteq> [] \<Longrightarrow>
     strconv_ParseInt ds = (if 2 ^ 63 \<le> decValue 0 ds then Inl (numError ds ''value out of range'')
                            else Inr (decValue 0 ds))"
  by (cases ds) (auto simp: strconv_ParseInt_def isDigit_def Let_def)

text \<open>
  C7, as amended. Let the input be white space \<open>ws\<close>, then a run of digits \<open>ds\<close>,
  then \<open>rest\<close>, which does not start with a digit (nor, after an empty run, with
  white space). A run of 21 digits or more, or of 20 digits with a byte after it, is
  rejected as too large. A run of 1 to 19 digits whose decimal value is at most
  \<open>2^63 - 1\<close> parses to exactly that value, and \<open>rest\<close> is returned as it is. A run
  of at most 19 digits whose value is above \<open>2^63 - 1\<close> is rejected as out of range,
  and an empty run as a syntax error. (A run of exactly 20 digits that ends the buffer is
  left to \<open>strconv.ParseInt\<close>; the statement says nothing about it.)
\<close>

theorem parseJSONInt64_digit_run:
  assumes "list_all isSpace ws" and "list_all isDigit ds"
    and "rest = [] \<or> (\<not> isDigit (hd rest) \<and> (ds = [] \<longrightarrow> \<not> isSpace (hd rest)))"
  shows "(21 \<le> length ds \<or> (length ds = 20 \<and> rest \<noteq> [])
            \<longrightarrow> parseJSONInt64 (ws @ ds @ rest) = Inl (Error ''number too large''))
       \<and> (ds \<noteq> [] \<and> length ds \<le> 19 \<and> decValue 0 ds < 2 ^ 63
            \<longrightarrow> parseJSONInt64 (ws @ ds @ rest) = Inr (decValue 0 ds, rest))
       \<and> (length ds \<le> 19 \<and> 2 ^ 63 \<le> decValue 0 ds
            \<longrightarrow> parseJSONInt64 (ws @ ds @ rest) = Inl (numError ds ''value out of range''))
       \<and> (ds = []
            \<longrightarrow> parseJSONInt64 (ws @ ds @ rest) = Inl (numError [] ''invalid syntax''))"
proof -
  have sk: "skipSpace (ws @ ds @ rest) = ds @ rest"
  proof -
    have "ds @ rest = [] \<or> \<not> isSpace (hd (ds @ rest))"
      using assms(2,3) by (cases ds) (auto simp: isDigit_not_space)
    then show ?thesis using assms(1) by (simp add: skipSpace_blank_prefix skipSpace_start)
  qed
  have big: "parseJSONInt64 (ws @ ds @ rest) = Inl (Error ''number too large'')"
    if "21 \<le> length ds \<or> (length ds = 20 \<and> rest \<noteq> [])"
  proof -
    have "parseJSONInt64_loop [] (ds @ rest) = Inl (Error ''number too large'')"
      using that assms(2) by (intro int_loop_too_large) (auto simp: Suc_le_eq)
    then show ?thesis by (simp add: parseJSONInt64_def sk)
  qed
  have run: "parseJSONInt64_loop [] (ds @ rest) = Inr (ds, rest)" if "length ds \<le> 19"
    using int_loop_run [of ds "[]" rest] that assms(2,3) by auto
  have ok: "parseJSONInt64 (ws @ ds @ rest) = Inr (decValue 0 ds, rest)"
    if "ds \<noteq> []" "length ds \<le> 19" "decValue 0 ds < 2 ^ 63"
    using that run assms(2) by (simp add: parseJSONInt64_def sk strconv_ParseInt_digits)
  have range: "parseJSONInt64 (ws @ ds @ rest) = Inl (numError ds ''value out of range'')"
    if "length ds \<le> 19" "2 ^ 63 \<le> decValue 0 ds"
  proof -
    from that(2) have "ds \<noteq> []" by auto
    then show ?thesis
      using that run assms(2) by (simp add: parseJSONInt64_def sk strconv_ParseInt_digits)
  qed
  have empty: "parseJSONInt64 (ws @ ds @ rest) = Inl (numError [] ''invalid syntax'')" if "ds = []"
    using that run sk by (simp add: parseJSONInt64_def strconv_ParseInt_Nil)
  from big ok range empty show ?thesis by blast
qed

text \<open>
  The theorem at four inputs: a run of four digits between blanks, a run of 21 digits,
  the 19 digits of \<open>2^63\<close>, and an empty run.
\<close>

theorem parseJSONInt64_digit_run_witness:
  "parseJSONInt64 '' 1235  '' = Inr (1235, ''  '')
   \<and> parseJSONInt64 (''  '' @ ''123456789012345678901'' @ ''}'') = Inl (Error ''number too large'')
   \<and> parseJSONInt64 ('''' @ ''9223372036854775808'' @ '','') = Inl (numError ''9223372036854775808'' ''value out of range'')
   \<and> parseJSONInt64 ('''' @ [] @ ''null'') = Inl (numError [] ''invalid syntax'')"
proof -
  have a: "list_all isSpace '' ''" "list_all isSpace ''  ''" "list_all isSpace []"
    by (simp_all add: isSpace_def)
  have b: "list_all isDigit ''1235''" "list_all isDigit ''123456789012345678901''"
    "list_all isDigit ''9223372036854775808''" "list_all isDigit []"
    by (simp_all add: isDigit_def)
  have c: "''  '' = [] \<or> (\<not> isDigit (hd ''  '') \<and> (''1235'' = [] \<longrightarrow> \<not> isSpace (hd ''  '')))"
    "''}'' = [] \<or> (\<not> isDigit (hd ''}'') \<and> (''123456789012345678901'' = [] \<longrightarrow> \<not> isSpace (hd ''}'')))"
    "'','' = [] \<or> (\<not> isDigit (hd '','') \<and> (''9223372036854775808'' = [] \<longrightarrow> \<not> isSpace (hd '','')))"
    "''null'' = [] \<or> (\<not> isDigit (hd ''null'') \<and> (([]::string) = [] \<longrightarrow> \<not> isSpace (hd ''null'')))"
    by (simp_all add: isDigit_def isSpace_def)
  show ?thesis
    using parseJSONInt64_digit_run [OF a(1) b(1) c(1)]
      parseJSONInt64_digit_run [OF a(2) b(2) c(2)]
      parseJSONInt64_digit_run [OF a(3) b(3) c(3)]
      parseJSONInt64_digit_run [OF a(3) b(4) c(4)]
    by simp
qed

text \<open>
  C7 as it was claimed fails: a run of 19 digits, \<open>9999999999999999999\<close>, does not
  parse (it is above the range of \<open>int64\<close>), and neither does a run of zero digits.
\<close>

theorem parseJSONInt64_19_digits_counterexample:
  "length ''9999999999999999999'' = 19 \<and> list_all isDigit ''9999999999999999999''
   \<and> parseJSONInt64 ''9999999999999999999''
       = Inl (numError ''9999999999999999999'' ''value out of range'')
   \<and> parseJSONInt64 '' x'' = Inl (numError [] ''invalid syntax'')"
  by code_simp

section \<open>C4 and C5: field resolution\<close>



text \<open>
  A machine identity, and a record that sets fields at all three levels: the first
  \<open>perMachine\<close> entry matches the host name, the second does not.
\<close>

definition exampleMachine :: groupRecord where
  "exampleMachine = \<lparr> machineId = ''m1'', hostname = ''host1'',
                       groupRecord.groupName = [], groupRecord.gid = 0 \<rparr>"















text \<open>
  C4. The claim: an entry whose legacy single-string \<open>matchMachineId\<close> equals the
  machine id matches. The code reads the single string under the key
  \<open>marchMachineId\<close>: the entry of the claim does not match and its \<open>gid\<close> is not
  applied, while an entry with the misspelt key does match. Besides, \<open>perMachine\<close>
  must hold a \<open>[]jsonObject\<close>; under the \<open>[]any\<close> that \<open>parseJSONArray\<close> returns
  no entry is looked at.
\<close>

theorem perMachine_legacy_machine_id_ignored:
  "\<not> perMachineMatch exampleMachine [(''matchMachineId'', AString ''m1''), (''gid'', AInt64 2)]
   \<and> perMachineMatch exampleMachine [(''marchMachineId'', AString ''m1''), (''gid'', AInt64 2)]
   \<and> groupRecord_unmarshalParameters exampleMachine
        [[(''record'', AObject
             [(''groupName'', AString ''g''), (''gid'', AInt64 1),
              (''perMachine'', AObjectSlice
                 [[(''matchMachineId'', AString ''m1''), (''gid'', AInt64 2)]])])]]
       = Inr (exampleMachine\<lparr> groupRecord.groupName := ''g'', groupRecord.gid := 1 \<rparr>)
   \<and> perMachineMatches exampleMachine
        [(''perMachine'', AArray [AObject [(''matchHostname'', AString ''host1'')]])] = []"
  by code_simp
section \<open>C8: the cap on decoded strings\<close>

text \<open>
  The decoded content of a string literal, whatever its length: the loop of
  \<open>parseJSONString\<close> without the test of \<open>value.Len()\<close>, that is, the rest of the
  loop body repeated, under the same prologue.
\<close>

function decodeString_loop :: "string \<Rightarrow> bool \<Rightarrow> bool \<Rightarrow> string \<Rightarrow> error + (string \<times> nat)" where
  "decodeString_loop val inEsc inUEsc rd =
     (case parseJSONString_iter val inEsc inUEsc rd of
        Return res \<Rightarrow> res
      | Continue val' inEsc' inUEsc' rd' \<Rightarrow> decodeString_loop val' inEsc' inUEsc' rd')"
  by pat_completeness auto

termination decodeString_loop
  by (relation "measure (\<lambda>(val, inEsc, inUEsc, rd). length rd)")
     (auto simp: parseJSONString_iter_shorter)

declare decodeString_loop.simps [simp del]

definition decodeString :: "string \<Rightarrow> error + (string \<times> string)" where
  "decodeString r0 =
     (let r = skipSpace r0 in
      if length r < 2 then Inl (Error ''unexpected end of input'')
      else if r ! 0 = dq \<and> r ! 1 = dq then Inr ([], drop 2 r)
      else if r ! 0 \<noteq> dq
        then Inl (Error (''expected '' @ [dq] @ '' got '' @ utf8_AppendRune (of_char (r ! 0))))
      else
        (case decodeString_loop [] False False (tl r) of
           Inl e \<Rightarrow> Inl e
         | Inr (val, len) \<Rightarrow> Inr (val, drop len (tl r))))"

text \<open>
  \<open>utf8.RuneCountInString\<close>: the number of characters of a string. The inputs
  \<open>invalidBytes n\<close> are string literals of \<open>n\<close> bytes \<open>0xFF\<close>; each of the bytes
  decodes to U+FFFD, three bytes of output.
\<close>

function utf8_RuneCountInString :: "string \<Rightarrow> nat" where
  "utf8_RuneCountInString s =
     (if s = [] then 0 else Suc (utf8_RuneCountInString (drop (snd (utf8_DecodeRune s)) s)))"
  by pat_completeness auto

termination utf8_RuneCountInString
  by (relation "measure length") (auto simp: utf8_DecodeRune_size)

declare utf8_RuneCountInString.simps [simp del]

definition invalidBytes :: "nat \<Rightarrow> string" where
  "invalidBytes n = dq # replicate n (CHR 0xFF) @ [dq]"

definition replacementChars :: "nat \<Rightarrow> string" where
  "replacementChars n = concat (replicate n [CHR 0xEF, CHR 0xBF, CHR 0xBD])"

lemma iter_grows:
  "parseJSONString_iter val inEsc inUEsc rd = Continue val' inEsc' inUEsc' rd'
     \<Longrightarrow> length val \<le> length val'"
  by (auto simp: parseJSONString_iter_def split: if_splits option.splits list.splits prod.splits)

lemma iter_returns:
  "parseJSONString_iter val inEsc inUEsc rd = Return (Inr (v, n)) \<Longrightarrow> v = val"
  by (auto simp: parseJSONString_iter_def split: if_splits option.splits list.splits prod.splits)


lemma decodeString_loop_grows:
  "decodeString_loop val inEsc inUEsc rd = Inr (v, n) \<Longrightarrow> length val \<le> length v"
proof (induction val inEsc inUEsc rd rule: decodeString_loop.induct)
  case (1 val inEsc inUEsc rd)
  show ?case
  proof (cases "parseJSONString_iter val inEsc inUEsc rd")
    case (Return res)
    with "1.prems" have "parseJSONString_iter val inEsc inUEsc rd = Return (Inr (v, n))"
      by (simp add: decodeString_loop.simps [of val])
    from iter_returns [OF this] show ?thesis by simp
  next
    case (Continue val' inEsc' inUEsc' rd')
    with "1.prems" have "decodeString_loop val' inEsc' inUEsc' rd' = Inr (v, n)"
      by (simp add: decodeString_loop.simps [of val])
    from "1.IH" [OF Continue this] iter_grows [OF Continue]
    show ?thesis by simp
  qed
qed

lemma parseJSONString_loop_capped:
  "decodeString_loop val inEsc inUEsc rd = Inr (v, n)
     \<Longrightarrow> parseJSONString_loop val inEsc inUEsc rd
           = (if length v \<le> 4096 then Inr (v, n) else Inl (Error ''string too large''))"
proof (induction val inEsc inUEsc rd rule: decodeString_loop.induct)
  case (1 val inEsc inUEsc rd)
  show ?case
  proof (cases "4096 < length val")
    case True
    with decodeString_loop_grows [OF "1.prems"] have "4096 < length v" by simp
    with True show ?thesis
      by (simp add: parseJSONString_loop.simps [of val] parseJSONString_step_def)
  next
    case False
    then have eq: "parseJSONString_step val inEsc inUEsc rd
                     = parseJSONString_iter val inEsc inUEsc rd"
      by (simp add: parseJSONString_step_def)
    show ?thesis
    proof (cases "parseJSONString_iter val inEsc inUEsc rd")
      case (Return res)
      with "1.prems" have res: "res = Inr (v, n)"
        by (simp add: decodeString_loop.simps [of val])
      with Return have "v = val" by (auto dest: iter_returns)
      with False eq Return res show ?thesis
        by (simp add: parseJSONString_loop.simps [of val])
    next
      case (Continue val' inEsc' inUEsc' rd')
      with "1.prems" have "decodeString_loop val' inEsc' inUEsc' rd' = Inr (v, n)"
        by (simp add: decodeString_loop.simps [of val])
      from "1.IH" [OF Continue this] eq Continue show ?thesis
        by (simp add: parseJSONString_loop.simps [of val])
    qed
  qed
qed

lemma parseJSONString_loop_bounded:
  "parseJSONString_loop val inEsc inUEsc rd = Inr (v, n) \<Longrightarrow> length v \<le> 4096"
proof (induction val inEsc inUEsc rd rule: parseJSONString_loop.induct)
  case (1 val inEsc inUEsc rd)
  show ?case
  proof (cases "parseJSONString_step val inEsc inUEsc rd")
    case (Return res)
    with "1.prems" have r: "parseJSONString_step val inEsc inUEsc rd = Return (Inr (v, n))"
      by (simp add: parseJSONString_loop.simps [of val])
    then have c: "\<not> 4096 < length val" and "parseJSONString_iter val inEsc inUEsc rd = Return (Inr (v, n))"
      by (auto simp: parseJSONString_step_def split: if_splits)
    from iter_returns [OF this(2)] c show ?thesis by simp
  next
    case (Continue val' inEsc' inUEsc' rd')
    with "1.prems" have "parseJSONString_loop val' inEsc' inUEsc' rd' = Inr (v, n)"
      by (simp add: parseJSONString_loop.simps [of val])
    from "1.IH" [OF Continue this] show ?thesis .
  qed
qed

lemma parseJSONString_bounded: "parseJSONString r = Inr (v, rest) \<Longrightarrow> length v \<le> 4096"
proof -
  assume a: "parseJSONString r = Inr (v, rest)"
  show ?thesis
  proof (cases "v = []")
    case True
    then show ?thesis by simp
  next
    case False
    with a obtain n where "parseJSONString_loop [] False False (tl (skipSpace r)) = Inr (v, n)"
      by (auto simp: parseJSONString_def Let_def split: if_splits sum.splits prod.splits)
    then show ?thesis by (rule parseJSONString_loop_bounded)
  qed
qed

lemma parseJSONString_decodeString:
  "decodeString r = Inr (w, rest)
     \<Longrightarrow> parseJSONString r
           = (if length w \<le> 4096 then Inr (w, rest) else Inl (Error ''string too large''))"
proof -
  assume a: "decodeString r = Inr (w, rest)"
  let ?r = "skipSpace r"
  from a have l: "\<not> length ?r < 2"
    by (auto simp: decodeString_def Let_def split: if_splits)
  show ?thesis
  proof (cases "?r ! 0 = dq \<and> ?r ! 1 = dq")
    case True
    with a l show ?thesis by (auto simp: decodeString_def parseJSONString_def Let_def)
  next
    case False
    with a l have q: "?r ! 0 = dq"
      by (auto simp: decodeString_def Let_def split: if_splits)
    with a l False obtain n where d: "decodeString_loop [] False False (tl ?r) = Inr (w, n)"
      and r: "rest = drop n (tl ?r)"
      by (auto simp: decodeString_def Let_def split: if_splits sum.splits prod.splits)
    from parseJSONString_loop_capped [OF d] l False q r show ?thesis
      by (simp add: parseJSONString_def Let_def)
  qed
qed

lemma utf8_AppendRune_RuneError: "utf8_AppendRune 0xFFFD = [CHR 0xEF, CHR 0xBF, CHR 0xBD]"
  by code_simp

lemma iter_invalid_byte:
  "parseJSONString_iter val False False (CHR 0xFF # rd)
     = Continue (val @ [CHR 0xEF, CHR 0xBF, CHR 0xBD]) False False rd"
  by (simp add: parseJSONString_iter_def utf8_DecodeRune_def utf8_AppendRune_RuneError
                RuneError_def bsl_def dq_def)

lemma iter_closing_quote:
  "parseJSONString_iter val False False [dq] = Return (Inr (val, 0))"
  by (simp add: parseJSONString_iter_def utf8_DecodeRune_def dq_def bsl_def)

lemma decodeString_loop_invalid:
  "decodeString_loop val False False (replicate n (CHR 0xFF) @ [dq])
     = Inr (val @ replacementChars n, 0)"
proof (induction n arbitrary: val)
  case 0
  show ?case
    by (simp add: decodeString_loop.simps [of val] iter_closing_quote replacementChars_def)
next
  case (Suc n)
  show ?case
    by (simp add: decodeString_loop.simps [of val] iter_invalid_byte Suc replacementChars_def)
qed

lemma decodeString_invalid:
  "0 < n \<Longrightarrow> decodeString (invalidBytes n)
             = Inr (replacementChars n, replicate n (CHR 0xFF) @ [dq])"
proof -
  assume "0 < n"
  then obtain m where n: "n = Suc m" by (cases n) auto
  have "decodeString_loop [] False False (CHR 0xFF # replicate m (CHR 0xFF) @ [dq])
          = Inr (replacementChars (Suc m), 0)"
    using decodeString_loop_invalid [of "[]" "Suc m"] by simp
  then show ?thesis
    by (simp add: n decodeString_def invalidBytes_def isSpace_def dq_def)
qed

lemma length_replacementChars: "length (replacementChars n) = 3 * n"
  by (induction n) (simp_all add: replacementChars_def)

lemma RuneCount_replacementChars: "utf8_RuneCountInString (replacementChars n) = n"
proof (induction n)
  case 0
  show ?case by (simp add: replacementChars_def utf8_RuneCountInString.simps)
next
  case (Suc n)
  have "utf8_DecodeRune (CHR 0xEF # CHR 0xBF # CHR 0xBD # replacementChars n) = (0xFFFD, 3)"
    by (simp add: utf8_DecodeRune_def)
  then show ?case
    using Suc
    by (simp add: replacementChars_def
          utf8_RuneCountInString.simps [of "CHR 0xEF # CHR 0xBF # CHR 0xBD # concat (replicate n [CHR 0xEF, CHR 0xBF, CHR 0xBD])"])
qed

text \<open>
  C8, as amended. A value that \<open>parseJSONString\<close> returns is at most 4096 bytes long
  (so at most 4096 characters). Where the decoded content \<open>w\<close> of the input exists,
  \<open>parseJSONString\<close> returns it, with the same remainder, if it is at most 4096 bytes
  long, and the error \<open>string too large\<close> if it is longer: on such inputs the error
  has no other cause than the length in bytes.
\<close>

theorem parseJSONString_cap:
  "(parseJSONString r = Inr (v, rest) \<longrightarrow> length v \<le> 4096)
   \<and> (decodeString r = Inr (w, rest') \<longrightarrow>
        parseJSONString r
          = (if length w \<le> 4096 then Inr (w, rest') else Inl (Error ''string too large'')))"
  using parseJSONString_bounded [of r v rest] parseJSONString_decodeString [of r w rest']
  by blast


text \<open>
  The theorem at a literal of three letters, which is returned, and at a literal of 1366
  invalid bytes, whose content of 4098 bytes is refused.
\<close>

theorem parseJSONString_cap_witness:
  "parseJSONString (dq # ''abc'' @ [dq]) = Inr (''abc'', ''abc'' @ [dq])
   \<and> length ''abc'' \<le> 4096
   \<and> decodeString (dq # ''abc'' @ [dq]) = Inr (''abc'', ''abc'' @ [dq])
   \<and> decodeString (invalidBytes 1366)
       = Inr (replacementChars 1366, replicate 1366 (CHR 0xFF) @ [dq])
   \<and> parseJSONString (invalidBytes 1366) = Inl (Error ''string too large'')"
proof -
  have p: "parseJSONString (dq # ''abc'' @ [dq]) = Inr (''abc'', ''abc'' @ [dq])"
    by code_simp
  have d: "decodeString (dq # ''abc'' @ [dq]) = Inr (''abc'', ''abc'' @ [dq])"
    by code_simp
  have b: "decodeString (invalidBytes 1366)
             = Inr (replacementChars 1366, replicate 1366 (CHR 0xFF) @ [dq])"
    by (rule decodeString_invalid) simp
  show ?thesis
    using parseJSONString_cap [of "dq # ''abc'' @ [dq]" "''abc''" "''abc'' @ [dq]"
            "''abc''" "''abc'' @ [dq]"]
      parseJSONString_cap [of "invalidBytes 1366" "[]" "[]" "replacementChars 1366"
            "replicate 1366 (CHR 0xFF) @ [dq]"]
      p d b
    by (simp add: length_replacementChars)
qed

text \<open>
  C8 as it was claimed, with lengths in characters, fails: the content of the literal of
  1366 invalid bytes has 1366 characters, far below 4096, and \<open>parseJSONString\<close>
  refuses it as too large, because it is 4098 bytes long.
\<close>

theorem parseJSONString_cap_counts_bytes_counterexample:
  "decodeString (invalidBytes 1366)
     = Inr (replacementChars 1366, replicate 1366 (CHR 0xFF) @ [dq])
   \<and> utf8_RuneCountInString (replacementChars 1366) = 1366
   \<and> parseJSONString (invalidBytes 1366) = Inl (Error ''string too large'')"
proof -
  have b: "decodeString (invalidBytes 1366)
             = Inr (replacementChars 1366, replicate 1366 (CHR 0xFF) @ [dq])"
    by (rule decodeString_invalid) simp
  from parseJSONString_decodeString [OF b] b show ?thesis
    by (simp add: length_replacementChars RuneCount_replacementChars)
qed

section \<open>C3: a reply with the service-not-available code\<close>

text \<open>
  Reply messages with the service-not-available code. \<open>plainNotAvailableMessage\<close> is
  the message as a service sends it. \<open>notAvailableMessage\<close> is a message that
  \<open>parseJSONObject\<close> accepts: the key is preceded by seven escape pairs that
  \<open>parseJSONString\<close> drops, and the closing brace is followed by 43 blanks, so that
  the remainders \<open>r[reader.Len():]\<close> fall where the next token starts; the key decodes
  to \<open>error\<close> and the value to the service-not-available code.
\<close>

definition surrogatePad :: string where
  "surrogatePad = bsl # ''uD800'' @ bsl # ''u0041''"

definition notAvailableMessage :: string where
  "notAvailableMessage =
     ''{'' @ [dq] @ concat (replicate 7 surrogatePad) @ ''error'' @ [dq] @ '':'' @ [dq]
     @ ''io.systemd.UserDatabase.ServiceNotAvailable'' @ [dq] @ ''}'' @ replicate 43 (CHR '' '')"

definition plainNotAvailableMessage :: string where
  \<open>plainNotAvailableMessage = ''{"error":"io.systemd.UserDatabase.ServiceNotAvailable"}''\<close>

text \<open>
  Three services: one answers every request with \<open>plainNotAvailableMessage\<close>, one
  answers every request with \<open>notAvailableMessage\<close>, and one answers the
  \<open>GetMemberships\<close> request for \<open>bob\<close> with an empty response and every other
  request with \<open>notAvailableMessage\<close>.
\<close>

definition plainNotAvailableSrv :: "string \<Rightarrow> transport" where
  "plainNotAvailableSrv request = Response (plainNotAvailableMessage @ [NUL])"

definition notAvailableSrv :: "string \<Rightarrow> transport" where
  "notAvailableSrv request = Response (notAvailableMessage @ [NUL])"

definition groupNotAvailableSrv :: "string \<Rightarrow> transport" where
  "groupNotAvailableSrv request =
     (if request = query_request (membershipsRequest ''bob'') then Response []
      else Response (notAvailableMessage @ [NUL]))"

text \<open>
  C3 asks that a reply carrying the service-not-available code downgrades the whole call
  to handled = false with no error value, and the comment on \<open>query\<close> says the same.
  The code does not do so. Against the service that sends the plain message,
  \<open>lookupGroup\<close> returns handled = true and the parse error
  \<open>expected colon, got invalid character: a\<close>: the parser rejects the message before
  the error code is looked at. Against the service that sends the message the parser
  accepts, the reply decodes to the service-not-available code, and \<open>lookupGroup\<close>,
  \<open>lookupUser\<close> and the memberships call of \<open>lookupGroupIds\<close> return
  handled = false together with an error value, the text that \<open>fmt.Errorf\<close> makes of
  a nil error. Only the call of \<open>lookupGroupIds\<close> for the primary group, which
  passes on what \<open>query\<close> returns, gives handled = false and no error.
\<close>

theorem service_not_available_not_downgraded:
  "lookupGroup plainNotAvailableSrv ''stdlibcontrib''
     = Returns (None, True,
         Some ''error querying systemd-userdb group record: expected colon, got invalid character: a'')
   \<and> userdbReply_unmarshal notAvailableMessage
       = Inr \<lparr> rerr = errServiceNotAvailable, continues = False, rparameters = [] \<rparr>
   \<and> lookupGroup notAvailableSrv ''stdlibcontrib''
       = Returns (None, False, Some ''error querying systemd-userdb group record: %!s(<nil>)'')
   \<and> lookupUser notAvailableSrv ''stdlibcontrib''
       = Returns (None, False, Some ''error querying systemd-userdb user record: %!s(<nil>)'')
   \<and> lookupGroupIds notAvailableSrv rev ''bob''
       = Returns (None, False,
           Some ''error querying systemd-userdb memberships record: %!s(<nil>)'')
   \<and> lookupGroupIds groupNotAvailableSrv rev ''bob'' = Returns (None, False, None)"
  by code_simp

text \<open>
  At these services no outcome of \<open>lookupGroup\<close> and \<open>lookupUser\<close>, and not the
  outcome of \<open>lookupGroupIds\<close> when the memberships call is the one answered with the
  service-not-available code, is the outcome C3 names, handled = false with no error.
\<close>

theorem service_not_available_not_downgraded_witness:
  "lookupGroup plainNotAvailableSrv ''stdlibcontrib'' \<noteq> Returns (None, False, None)
   \<and> lookupGroup notAvailableSrv ''stdlibcontrib'' \<noteq> Returns (None, False, None)
   \<and> lookupUser notAvailableSrv ''stdlibcontrib'' \<noteq> Returns (None, False, None)
   \<and> lookupGroupIds notAvailableSrv rev ''bob'' \<noteq> Returns (None, False, None)"
  using service_not_available_not_downgraded by simp

section \<open>C6: the group ids of a user\<close>

text \<open>
  What a run of \<open>lookupGroupIds\<close> observes: \<open>collectedParams\<close> are the parameters
  objects that \<open>query\<close> accumulates from the reply messages of a call,
  \<open>observedGroups\<close> the group names in those of the \<open>GetMemberships\<close> call, and
  \<open>groupGid srv g\<close> the decimal gid that a \<open>GetGroupRecord\<close> call for \<open>g\<close>
  yields, if that call succeeds.
\<close>

definition collectedParams :: "(string \<Rightarrow> transport) \<Rightarrow> userdbCall \<Rightarrow> jsonObject list" where
  "collectedParams srv call =
     (case srv (query_request call) of
        Response resp \<Rightarrow>
          if resp = [] then []
          else (case query_msgs [] (splitNUL (butlast resp)) of
                  Returns (Collected replyParams) \<Rightarrow> replyParams
                | _ \<Rightarrow> [])
      | _ \<Rightarrow> [])"

definition observedGroups :: "(string \<Rightarrow> transport) \<Rightarrow> string \<Rightarrow> string set" where
  "observedGroups srv username =
     {g. \<exists>ps \<in> set (collectedParams srv (membershipsRequest username)).
           jsonObjectGet_string ps ''groupName'' = Some g}"

definition groupGid :: "(string \<Rightarrow> transport) \<Rightarrow> string \<Rightarrow> string option" where
  "groupGid srv g =
     (case query srv (groupRequest None g) zeroGroupRecord groupRecord_unmarshalParameters of
        Returns (True, None, grp) \<Rightarrow> Some (strconv_FormatInt (groupRecord.gid grp))
      | _ \<Rightarrow> None)"

text \<open>
  A service for the user \<open>bob\<close>, member of \<open>dev\<close>, with one membership reply and
  the records of the groups \<open>bob\<close> (gid 181) and \<open>dev\<close> (gid 182). The messages
  are laid out so that \<open>parseJSONObject\<close> accepts them: keys and values are padded
  with escapes, and blanks follow the closing braces.
\<close>

definition memberBobDev :: string where
  \<open>memberBobDev = ''{"'' @ concat (replicate 6 surrogatePad) @ bsl # ''u0070'' @ bsl # ''u0061'' @ ''rameters":{"'' @ concat (replicate 3 surrogatePad) @ ''userName":"'' @ concat (replicate 1 surrogatePad) @ bsl # ''u0062'' @ ''ob","groupName":"dev"}}  ''\<close>

definition groupBob :: string where
  \<open>groupBob = ''{"'' @ concat (replicate 13 surrogatePad) @ bsl # ''u0070'' @ bsl # ''u0061'' @ ''rameters":{"'' @ concat (replicate 5 surrogatePad) @ bsl # ''u0072'' @ bsl # ''u0065'' @ bsl # ''u0063'' @ bsl # ''u006f'' @ ''rd":{"'' @ concat (replicate 1 surrogatePad) @ bsl # ''u0067'' @ bsl # ''u0072'' @ bsl # ''u006f'' @ bsl # ''u0075'' @ ''pName":"'' @ bsl # ''u0062'' @ bsl # ''u006f'' @ bsl # ''u0062'' @ ''", "'' @ bsl # ''u0067'' @ ''id":181}}}  ''\<close>

definition groupDev :: string where
  \<open>groupDev = ''{"'' @ concat (replicate 13 surrogatePad) @ bsl # ''u0070'' @ bsl # ''u0061'' @ ''rameters":{"'' @ concat (replicate 5 surrogatePad) @ bsl # ''u0072'' @ bsl # ''u0065'' @ bsl # ''u0063'' @ bsl # ''u006f'' @ ''rd":{"'' @ concat (replicate 1 surrogatePad) @ bsl # ''u0067'' @ bsl # ''u0072'' @ bsl # ''u006f'' @ bsl # ''u0075'' @ ''pName":"'' @ bsl # ''u0064'' @ bsl # ''u0065'' @ bsl # ''u0076'' @ ''", "'' @ bsl # ''u0067'' @ ''id":182}}}  ''\<close>

definition exampleSrv :: "string \<Rightarrow> transport" where
  "exampleSrv request =
     (if request = query_request (membershipsRequest ''bob'') then Response (memberBobDev @ [NUL])
      else if request = query_request (groupRequest None ''bob'') then Response (groupBob @ [NUL])
      else if request = query_request (groupRequest None ''dev'') then Response (groupDev @ [NUL])
      else Response [])"

lemma groupRequest_groupName:
  "(groupRequest None g0)\<lparr> parameters := (parameters (groupRequest None g0))\<lparr> callParameters.groupName := g \<rparr> \<rparr>
     = groupRequest None g"
  by (simp add: groupRequest_def)

lemma lookupGroupIds_loop_set:
  "lookupGroupIds_loop srv (groupRequest None g0) acc ks = Returns (Some gids, True, None)
     \<Longrightarrow> Some ` set gids = Some ` set acc \<union> groupGid srv ` set ks"
proof (induction ks arbitrary: acc g0)
  case Nil
  then show ?case by simp
next
  case (Cons g ks)
  let ?q = "query srv (groupRequest None g) zeroGroupRecord groupRecord_unmarshalParameters"
  from Cons.prems obtain grp where q: "?q = Returns (True, None, grp)"
    and l: "lookupGroupIds_loop srv (groupRequest None g)
              (acc @ [strconv_FormatInt (groupRecord.gid grp)]) ks = Returns (Some gids, True, None)"
    by (auto simp: groupRequest_groupName Let_def split: outcome.splits if_splits)
  from q have gg: "groupGid srv g = Some (strconv_FormatInt (groupRecord.gid grp))"
    by (simp add: groupGid_def)
  from Cons.IH [OF l] gg show ?case by auto
qed

lemma keys_update: "fst ` set (AList.update k v al) = insert k (fst ` set al)"
  by (induction al) auto

lemma memberships_loop_keys:
  "memberships_loop gu params = Inr gu'
     \<Longrightarrow> fst ` set gu' = fst ` set gu \<union> {g. \<exists>ps \<in> set params. jsonObjectGet_string ps ''groupName'' = Some g}
         \<and> (\<forall>ps \<in> set params. jsonObjectGet_string ps ''userName'' \<noteq> None
                                \<and> jsonObjectGet_string ps ''groupName'' \<noteq> None)"
proof (induction params arbitrary: gu)
  case Nil
  then show ?case by simp
next
  case (Cons ps params)
  from Cons.prems obtain user grp where u: "jsonObjectGet_string ps ''userName'' = Some user"
    and g: "jsonObjectGet_string ps ''groupName'' = Some grp"
    by (auto split: option.splits)
  from Cons.prems u g obtain users where
    l: "memberships_loop (AList.update grp users gu) params = Inr gu'"
    by (auto split: option.splits)
  from Cons.IH [OF l] u g show ?case by (auto simp: keys_update)
qed

lemma memberships_loop_fails:
  "\<exists>ps \<in> set params. jsonObjectGet_string ps ''userName'' = None
                      \<or> jsonObjectGet_string ps ''groupName'' = None
     \<Longrightarrow> \<exists>e. memberships_loop gu params = Inl e"
  by (induction params arbitrary: gu) (auto split: option.splits)

lemma query_msgs_Leave:
  "query_msgs rp msgs = Returns (Leave handled err) \<Longrightarrow> (handled \<longleftrightarrow> err \<noteq> None)"
  by (induction msgs arbitrary: rp) (auto split: sum.splits error.splits if_splits)

lemma query_memberships_keys:
  assumes "query srv call \<lparr> groupUsers = [] \<rparr> memberships_unmarshalParameters
             = Returns (True, None, ms)"
  shows "fst ` set (groupUsers ms)
           = {g. \<exists>ps \<in> set (collectedParams srv call). jsonObjectGet_string ps ''groupName'' = Some g}
         \<and> (\<forall>ps \<in> set (collectedParams srv call).
               jsonObjectGet_string ps ''userName'' \<noteq> None
               \<and> jsonObjectGet_string ps ''groupName'' \<noteq> None)"
proof (cases "srv (query_request call)")
  case (Response resp)
  show ?thesis
  proof (cases "resp = []")
    case True
    with assms Response show ?thesis by (auto simp: query_def collectedParams_def)
  next
    case False
    with assms Response obtain rp where
      m: "query_msgs [] (splitNUL (butlast resp)) = Returns (Collected rp)"
      and u: "memberships_unmarshalParameters \<lparr> groupUsers = [] \<rparr> rp = Inr ms"
      by (auto simp: query_def split: outcome.splits msgsResult.splits sum.splits
               dest: query_msgs_Leave)
    from u obtain gu where l: "memberships_loop [] rp = Inr gu" and e: "groupUsers ms = gu"
      by (auto simp: memberships_unmarshalParameters_def split: sum.splits)
    from Response False m have c: "collectedParams srv call = rp"
      by (simp add: collectedParams_def)
    from memberships_loop_keys [OF l] e c show ?thesis by simp
  qed
qed (use assms in \<open>auto simp: query_def\<close>)

lemma memberships_unmarshalParameters_requires_both:
  "\<exists>ps \<in> set params. jsonObjectGet_string ps ''userName'' = None
                      \<or> jsonObjectGet_string ps ''groupName'' = None
     \<Longrightarrow> \<exists>e. memberships_unmarshalParameters m params = Inl e"
  using memberships_loop_fails [of params "[]"]
  by (auto simp: memberships_unmarshalParameters_def)

text \<open>
  C6. Whatever order the run time picks for the keys of the membership map, a successful
  run of \<open>lookupGroupIds\<close> returns, as a set, exactly the decimal gids of the group
  named like the user and of every group name observed in the membership replies, each
  obtained by its own \<open>GetGroupRecord\<close> call; and every membership reply it collected
  defines both \<open>userName\<close> and \<open>groupName\<close>.
\<close>

theorem lookupGroupIds_set:
  assumes "\<forall>ks. set (iter ks) = set ks"
    and "lookupGroupIds srv iter username = Returns (Some gids, True, None)"
  shows "Some ` set gids = groupGid srv ` insert username (observedGroups srv username)
       \<and> (\<forall>ps \<in> set (collectedParams srv (membershipsRequest username)).
             jsonObjectGet_string ps ''userName'' \<noteq> None
             \<and> jsonObjectGet_string ps ''groupName'' \<noteq> None)"
proof -
  let ?qm = "query srv (membershipsRequest username) \<lparr> groupUsers = [] \<rparr>
               memberships_unmarshalParameters"
  let ?qg = "query srv (groupRequest None username) zeroGroupRecord
               groupRecord_unmarshalParameters"
  from assms(2) obtain ms where qm: "?qm = Returns (True, None, ms)"
    by (auto simp: lookupGroupIds_def split: outcome.splits if_splits)
  from assms(2) qm obtain primary where qg: "?qg = Returns (True, None, primary)"
    and l: "lookupGroupIds_loop srv (groupRequest None username)
              [strconv_FormatInt (groupRecord.gid primary)]
              (iter (map fst (groupUsers ms))) = Returns (Some gids, True, None)"
    by (auto simp: lookupGroupIds_def split: outcome.splits if_splits)
  from qg have gg: "groupGid srv username = Some (strconv_FormatInt (groupRecord.gid primary))"
    by (simp add: groupGid_def)
  have ks: "set (iter (map fst (groupUsers ms))) = observedGroups srv username"
    using assms(1) query_memberships_keys [OF qm] by (simp add: observedGroups_def)
  from lookupGroupIds_loop_set [OF l] gg ks query_memberships_keys [OF qm]
  show ?thesis by auto
qed

text \<open>
  The theorem at the service above, with the keys taken in reverse order: the run
  succeeds with the gids 181 and 182.
\<close>

theorem lookupGroupIds_set_witness:
  "(\<forall>ks. set (rev ks) = set (ks :: string list))
   \<and> lookupGroupIds exampleSrv rev ''bob'' = Returns (Some [''181'', ''182''], True, None)
   \<and> collectedParams exampleSrv (membershipsRequest ''bob'')
       = [[(''userName'', AString ''bob''), (''groupName'', AString ''dev'')]]
   \<and> Some ` set [''181'', ''182'']
       = groupGid exampleSrv ` insert ''bob'' (observedGroups exampleSrv ''bob'')"
proof -
  have i: "\<forall>ks. set (rev ks) = set (ks :: string list)" by simp
  have r: "lookupGroupIds exampleSrv rev ''bob'' = Returns (Some [''181'', ''182''], True, None)"
    by code_simp
  have c: "collectedParams exampleSrv (membershipsRequest ''bob'')
             = [[(''userName'', AString ''bob''), (''groupName'', AString ''dev'')]]"
    by code_simp
  from lookupGroupIds_set [OF i r] i r c show ?thesis by simp
qed
end
